theory Spec2Isabelle
  imports Complex_Main "HOL-Library.Sublist"
begin

section \<open>Strings\<close>

text \<open>
  Text is a \<open>string\<close> (a list of 8-bit characters); the model covers ASCII descriptions.
  Python's \<open>sub in s\<close> on strings is the contiguous-sublist test \<open>sublist sub s\<close>.
  \<open>str.lower()\<close> maps the letters A..Z to a..z and leaves every other character alone.
  \<open>s.replace(c, '')\<close> for a one-character \<open>c\<close> deletes every occurrence of \<open>c\<close>.
\<close>

definition lower_char :: "char \<Rightarrow> char" where
  "lower_char c =
     (let n = (of_char c :: nat) in if 65 \<le> n \<and> n \<le> 90 then char_of (n + 32) else c)"

definition lower :: "string \<Rightarrow> string" where
  "lower s = map lower_char s"

definition replace_vazio :: "char \<Rightarrow> string \<Rightarrow> string" where
  "replace_vazio c s = filter (\<lambda>x. x \<noteq> c) s"

section \<open>CategorizadorIA\<close>

definition MAPEAMENTO :: "(string \<times> string list) list" where
  "MAPEAMENTO =
    [(''Transporte'', [''uber'', ''99'', ''taxi'', ''gasolina'', ''posto'', ''ipva'',
                       ''estacionamento'', ''onibus'', ''metro'']),
     (''Delivery'', [''ifood'', ''rappi'', ''uber eats'', ''delivery'']),
     (''Lazer'', [''cinema'', ''netflix'', ''spotify'', ''prime'', ''disney'', ''restaurante'',
                  ''bar'', ''show'']),
     (''Saude'', [''medico'', ''hospital'', ''laboratorio'', ''consulta'', ''exame'', ''clinica'']),
     (''Farmacia'', [''farmacia'', ''droga'', ''drogaria'', ''remedio'']),
     (''Casa'', [''aluguel'', ''condominio'', ''luz'', ''agua'', ''internet'', ''gas'', ''energia'']),
     (''Supermercado'', [''supermercado'', ''mercado'', ''atacadao'', ''pao de acucar'', ''assai'',
                         ''padaria'']),
     (''Roupa'', [''roupa'', ''sapato'', ''loja'', ''zara'', ''renner'', ''nike'', ''adidas'']),
     (''Faculdade'', [''faculdade'', ''universidade'', ''curso'', ''mensalidade'', ''escola'']),
     (''Beleza'', [''salao'', ''cabelo'', ''manicure'', ''barbeiro'', ''estetica'']),
     (''Assinaturas'', [''assinatura'', ''recorrente'', ''tim'', ''vivo'', ''claro'', ''oi'']),
     (''Presentes'', [''presente'', ''gift''])]"

definition GASTOS_FIXOS_KEYWORDS :: "string list" where
  "GASTOS_FIXOS_KEYWORDS =
    [''aluguel'', ''condominio'', ''luz'', ''agua'', ''internet'', ''gas'', ''energia'',
     ''tim'', ''vivo'', ''claro'', ''oi'', ''netflix'', ''spotify'', ''prime'', ''disney'',
     ''faculdade'', ''universidade'', ''mensalidade'', ''plano'', ''assinatura'', ''academia'']"

text \<open>\<open>s.replace(' ', '').replace('.', '').replace('-', '')\<close>\<close>

definition limpar :: "string \<Rightarrow> string" where
  "limpar s = replace_vazio (CHR ''-'') (replace_vazio (CHR ''.'') (replace_vazio (CHR '' '') s))"

text \<open>The loop over \<open>GASTOS_FIXOS_KEYWORDS\<close>, leaving at the first keyword found.\<close>

fun eh_fixo_loop :: "string list \<Rightarrow> string \<Rightarrow> bool" where
  "eh_fixo_loop [] desc_limpo = False"
| "eh_fixo_loop (palavra # resto) desc_limpo =
     (if sublist (limpar palavra) desc_limpo then True else eh_fixo_loop resto desc_limpo)"

text \<open>The loop over \<open>MAPEAMENTO.items()\<close> (a dict keeps its declaration order), returning
  at the first category one of whose keywords occurs in the description.\<close>

fun categoria_loop :: "(string \<times> string list) list \<Rightarrow> string \<Rightarrow> string option" where
  "categoria_loop [] desc = None"
| "categoria_loop ((categoria, palavras) # resto) desc =
     (if list_ex (\<lambda>palavra. sublist palavra desc) palavras then Some categoria
      else categoria_loop resto desc)"

definition categorizar :: "string \<Rightarrow> real \<Rightarrow> string \<times> string \<times> bool" where
  "categorizar descricao valor =
     (let desc = lower descricao in
      if valor > 0 \<or> sublist ''recebida'' desc \<or> sublist ''salario'' desc
      then (''Entrada'', ''Receita'', False)
      else
        let desc_limpo = limpar desc;
            eh_fixo = eh_fixo_loop GASTOS_FIXOS_KEYWORDS desc_limpo
        in case categoria_loop MAPEAMENTO desc of
             Some categoria \<Rightarrow> (categoria, ''Despesa'', eh_fixo)
           | None \<Rightarrow> (''Necessidade'', ''Despesa'', eh_fixo))"

definition identificar_forma_pagamento :: "string \<Rightarrow> string" where
  "identificar_forma_pagamento descricao =
     (let desc = lower descricao in
      if sublist ''pix'' desc then ''Pix''
      else if sublist ''cartao'' desc \<or> sublist ''credito'' desc then ''Cartao''
      else ''Pix'')"

section \<open>Transactions and their hash\<close>

text \<open>
  A value of the column \<open>Valor\<close> after \<open>pd.to_numeric\<close>: the column is of dtype int64 when
  every amount of the file is written without a decimal point, and float64 otherwise. A
  float64 is taken for the real number it stands for, except the negative zero, which is equal
  to \<open>0.0\<close> as a number and is a value of its own (NaN is dropped by the reader). \<open>numero\<close> is
  the number a value stands for, which is what \<open>valor > 0\<close> compares.
\<close>

datatype valor = Int64 int | Float64 real | Float64_zero_negativo

definition numero :: "valor \<Rightarrow> real" where
  "numero v = (case v of Int64 i \<Rightarrow> of_int i | Float64 r \<Rightarrow> r | Float64_zero_negativo \<Rightarrow> 0)"

text \<open>
  A row of the data frame handed to \<open>importar_transacoes\<close>: the columns \<open>Data\<close> (a date
  already rendered as dd/mm/yyyy by the reader), \<open>Descricao\<close> and \<open>Valor\<close>.
\<close>

record transacao =
  Data :: string
  Descricao :: string
  Valor :: valor

text \<open>
  \<open>_gerar_hash_transacao\<close>. Two library functions are parameters: \<open>md5\<close> stands for
  \<open>hashlib.md5(t.encode()).hexdigest()\<close> and \<open>str_valor\<close> for the text an f-string
  produces for the value in the column \<open>Valor\<close>.
\<close>

definition texto_hash :: "(valor \<Rightarrow> string) \<Rightarrow> 'a transacao_scheme \<Rightarrow> string" where
  "texto_hash str_valor row = Data row @ ''|'' @ Descricao row @ ''|'' @ str_valor (Valor row)"

definition gerar_hash_transacao ::
  "(string \<Rightarrow> string) \<Rightarrow> (valor \<Rightarrow> string) \<Rightarrow> 'a transacao_scheme \<Rightarrow> string" where
  "gerar_hash_transacao md5 str_valor row = md5 (texto_hash str_valor row)"

text \<open>
  What the f-string produces where it is simple to say: an int64 is written in decimal
  digits; a float64 that is a whole number below ten to the power 16 in size is written as that whole
  number followed by \<open>.0\<close>; the negative zero is written \<open>-0.0\<close>. The text of every other
  float64 is left to the parameter \<open>repr_fracionario\<close>.
\<close>

fun digitos :: "nat \<Rightarrow> string" where
  "digitos n = (if n < 10 then [char_of (48 + n)]
                else digitos (n div 10) @ [char_of (48 + n mod 10)])"

declare digitos.simps [simp del]

definition str_int :: "int \<Rightarrow> string" where
  "str_int i = (if i < 0 then ''-'' @ digitos (nat (- i)) else digitos (nat i))"

definition str_valor_py :: "(real \<Rightarrow> string) \<Rightarrow> valor \<Rightarrow> string" where
  "str_valor_py repr_fracionario v =
     (case v of
        Int64 i \<Rightarrow> str_int i
      | Float64 r \<Rightarrow>
          if of_int \<lfloor>r\<rfloor> = r \<and> \<bar>r\<bar> < 10 ^ 16 then str_int \<lfloor>r\<rfloor> @ ''.0''
          else repr_fracionario r
      | Float64_zero_negativo \<Rightarrow> ''-0.0'')"

text \<open>A date string of the shape dd/mm/yyyy: ten characters, digits around two slashes.\<close>

definition digito :: "char \<Rightarrow> bool" where
  "digito c = (let n = (of_char c :: nat) in 48 \<le> n \<and> n \<le> 57)"

definition data_ddmmyyyy :: "string \<Rightarrow> bool" where
  "data_ddmmyyyy s =
     (case s of
        [d1, d2, b1, m1, m2, b2, y1, y2, y3, y4] \<Rightarrow>
          digito d1 \<and> digito d2 \<and> b1 = CHR ''/'' \<and> digito m1 \<and> digito m2 \<and> b2 = CHR ''/'' \<and>
          digito y1 \<and> digito y2 \<and> digito y3 \<and> digito y4
      | _ \<Rightarrow> False)"

section \<open>The spreadsheet\<close>

text \<open>
  The value of a cell as the Sheets API hands it over: \<open>None\<close>, a text or a number.
  A blank cell holds the empty text.
\<close>

datatype celula = Nulo | Texto string | Numero real

definition em_branco :: "celula \<Rightarrow> bool" where
  "em_branco c = (c = Nulo \<or> c = Texto [])"

text \<open>
  The values of a range as \<open>Worksheet.get\<close> and \<open>get_all_values\<close> return them: the API leaves
  out the blank cells at the end of each row and the blank rows at the end of the range. This
  is why the source tests \<open>not valores\<close> (nothing came back) and \<open>not linha_valores\<close> (a row
  came back as the empty list).
\<close>

definition aparar_linha :: "celula list \<Rightarrow> celula list" where
  "aparar_linha l = rev (dropWhile em_branco (rev l))"

definition aparar_fim :: "celula list list \<Rightarrow> celula list list" where
  "aparar_fim ls = rev (dropWhile (\<lambda>l. l = []) (rev ls))"

definition valores_api :: "celula list list \<Rightarrow> celula list list" where
  "valores_api ls = aparar_fim (map aparar_linha ls)"

datatype erro = WorksheetNotFound | APIError

text \<open>
  The state the program works on: the cells of the month's worksheet \<open>aba_mes\<close> by column
  letter and row number, the rows of the worksheet \<open>Historico\<close> (\<open>None\<close> while it does not
  exist; row 1 first, column A first), and \<open>rede\<close>, the outcome of the remote calls still to
  come (\<open>False\<close>: the call fails in transport; past the end of the list every call succeeds).
\<close>

record planilha =
  aba_mes :: "string \<Rightarrow> nat \<Rightarrow> celula"
  aba_historico :: "celula list list option"
  rede :: "bool list"

text \<open>An operation runs on the state and either raises or returns; the state it leaves
  behind is kept in both cases.\<close>

type_synonym 'a acao = "planilha \<Rightarrow> (erro + 'a) \<times> planilha"

definition seq :: "'a acao \<Rightarrow> ('a \<Rightarrow> 'b acao) \<Rightarrow> 'b acao" where
  "seq m f s = (case m s of (Inl e, s') \<Rightarrow> (Inl e, s') | (Inr x, s') \<Rightarrow> f x s')"

text \<open>One remote call: it takes the next outcome of \<open>rede\<close>.\<close>

definition chamada :: "unit acao" where
  "chamada s =
     (case rede s of
        [] \<Rightarrow> (Inr (), s)
      | ok # resto \<Rightarrow> (if ok then Inr () else Inl APIError, s\<lparr>rede := resto\<rparr>))"

text \<open>\<open>self.aba_mes.get(f'{coluna}{inicio}:{coluna}{fim}', ...)\<close>\<close>

definition aba_mes_get :: "string \<Rightarrow> nat \<Rightarrow> nat \<Rightarrow> celula list list acao" where
  "aba_mes_get coluna inicio fim =
     seq chamada (\<lambda>_ s.
       (Inr (valores_api (map (\<lambda>linha. [aba_mes s coluna linha]) [inicio..<Suc fim])), s))"

text \<open>\<open>self.aba_mes.update([[v]], f'{coluna}{linha}')\<close>\<close>

definition update_aba_mes :: "string \<Rightarrow> string \<Rightarrow> nat \<Rightarrow> unit acao" where
  "update_aba_mes v coluna linha =
     seq chamada (\<lambda>_ s.
       (Inr (), s\<lparr>aba_mes := (aba_mes s)(coluna := (aba_mes s coluna)(linha := Texto v))\<rparr>))"

text \<open>\<open>self.planilha.worksheet(Config.ABA_HISTORICO)\<close>\<close>

definition worksheet_historico :: "unit acao" where
  "worksheet_historico =
     seq chamada (\<lambda>_ s.
       (case aba_historico s of None \<Rightarrow> Inl WorksheetNotFound | Some _ \<Rightarrow> Inr (), s))"

text \<open>Reading every value of the worksheet \<open>Historico\<close> (\<open>get_all_values\<close>, and the read
  inside \<open>get_as_dataframe\<close>).\<close>

definition historico_get_all_values :: "celula list list acao" where
  "historico_get_all_values =
     seq chamada (\<lambda>_ s.
       (case aba_historico s of
          None \<Rightarrow> (Inl WorksheetNotFound, s)
        | Some h \<Rightarrow> (Inr (valores_api h), s)))"

text \<open>
  Writing the block \<open>dados\<close> with its top left corner at column A of row \<open>prox_linha\<close>: each
  new row replaces the first cells of the row it lands on.
\<close>

definition sobrepor :: "celula list \<Rightarrow> celula list \<Rightarrow> celula list" where
  "sobrepor nova antiga = nova @ drop (length nova) antiga"

definition escrever_bloco :: "celula list list \<Rightarrow> nat \<Rightarrow> celula list list \<Rightarrow> celula list list" where
  "escrever_bloco dados prox_linha h =
     (let k = prox_linha - 1;
          hp = h @ replicate (k + length dados - length h) []
      in take k hp @ map2 sobrepor dados (take (length dados) (drop k hp))
           @ drop (k + length dados) hp)"

definition historico_update :: "celula list list \<Rightarrow> nat \<Rightarrow> unit acao" where
  "historico_update dados prox_linha =
     seq chamada (\<lambda>_ s.
       (case aba_historico s of
          None \<Rightarrow> (Inl WorksheetNotFound, s)
        | Some h \<Rightarrow> (Inr (), s\<lparr>aba_historico := Some (escrever_bloco dados prox_linha h)\<rparr>)))"

text \<open>\<open>self.planilha.add_worksheet(Config.ABA_HISTORICO, 1000, 10)\<close>: a blank worksheet.\<close>

definition add_worksheet_historico :: "unit acao" where
  "add_worksheet_historico =
     seq chamada (\<lambda>_ s.
       (case aba_historico s of
          None \<Rightarrow> (Inr (), s\<lparr>aba_historico := Some []\<rparr>)
        | Some _ \<Rightarrow> (Inl APIError, s)))"

section \<open>IntegradorSheets\<close>

definition CABECALHO :: "celula list" where
  "CABECALHO = [Texto ''Hash'', Texto ''Data'', Texto ''Descricao'', Texto ''Valor'',
                Texto ''Data_Importacao'']"

definition criar_aba_historico :: "unit acao" where
  "criar_aba_historico = seq add_worksheet_historico (\<lambda>_. historico_update [CABECALHO] 1)"

text \<open>
  \<open>get_as_dataframe\<close>: the first row of the values names the columns, the other rows are the
  data; a cell that is missing or blank is NaN. \<open>df['Hash'].dropna().tolist()\<close> are the
  values that are not NaN in the first column named \<open>Hash\<close>.
\<close>

definition colunas_df :: "celula list list \<Rightarrow> celula list" where
  "colunas_df valores = (case valores of [] \<Rightarrow> [] | cab # _ \<Rightarrow> cab)"

definition coluna_dropna :: "celula \<Rightarrow> celula list list \<Rightarrow> celula list" where
  "coluna_dropna nome valores =
     (let i = length (takeWhile (\<lambda>c. c \<noteq> nome) (colunas_df valores)) in
      filter (\<lambda>c. \<not> em_branco c)
        (map (\<lambda>l. if i < length l then l ! i else Nulo) (tl valores)))"

definition get_transacoes_existentes :: "celula set acao" where
  "get_transacoes_existentes s =
     (case worksheet_historico s of
        (Inl WorksheetNotFound, s1) \<Rightarrow> seq criar_aba_historico (\<lambda>_ s2. (Inr {}, s2)) s1
      | (Inl APIError, s1) \<Rightarrow> (Inl APIError, s1)
      | (Inr _, s1) \<Rightarrow>
          (case historico_get_all_values s1 of
             (Inl WorksheetNotFound, s2) \<Rightarrow> seq criar_aba_historico (\<lambda>_ s3. (Inr {}, s3)) s2
           | (Inl APIError, s2) \<Rightarrow> (Inl APIError, s2)
           | (Inr valores, s2) \<Rightarrow>
               (if Texto ''Hash'' \<notin> set (colunas_df valores) then (Inr {}, s2)
                else (Inr (set (coluna_dropna (Texto ''Hash'') valores)), s2))))"

text \<open>The loop of \<open>_encontrar_proxima_linha_vazia\<close> over the rows that came back.\<close>

fun primeira_vazia :: "celula list list \<Rightarrow> nat \<Rightarrow> nat option" where
  "primeira_vazia [] linha_atual = None"
| "primeira_vazia (linha_valores # resto) linha_atual =
     (if linha_valores = [] \<or> hd linha_valores \<in> {Nulo, Texto []} then Some linha_atual
      else primeira_vazia resto (linha_atual + 1))"

definition encontrar_proxima_linha_vazia :: "string \<Rightarrow> nat \<Rightarrow> nat \<Rightarrow> nat option acao" where
  "encontrar_proxima_linha_vazia coluna inicio fim =
     seq (aba_mes_get coluna inicio fim) (\<lambda>valores s.
       (Inr (if valores = [] then Some inicio else primeira_vazia valores inicio), s))"

text \<open>The loop of \<open>_inserir_generico\<close> over the rows of the data frame.\<close>

fun inserir_loop :: "'a transacao_scheme list \<Rightarrow> string \<Rightarrow> nat \<Rightarrow> nat \<Rightarrow> unit acao" where
  "inserir_loop [] col_desc linha fim s = (Inr (), s)"
| "inserir_loop (row # resto) col_desc linha fim s =
     (if linha > fim then (Inr (), s)
      else case update_aba_mes (take 50 (Descricao row)) col_desc linha s of
             (Inl e, s') \<Rightarrow> (Inl e, s')
           | (Inr _, s') \<Rightarrow> inserir_loop resto col_desc (linha + 1) fim s')"

definition inserir_generico ::
  "'a transacao_scheme list \<Rightarrow> string \<Rightarrow> nat \<Rightarrow> nat \<Rightarrow> unit acao" where
  "inserir_generico df col_desc inicio fim =
     seq (encontrar_proxima_linha_vazia col_desc inicio fim) (\<lambda>linha.
       case linha of
         None \<Rightarrow> (\<lambda>s. (Inr (), s))
       | Some l \<Rightarrow> (if l \<noteq> 0 \<and> l \<le> fim then inserir_loop df col_desc l fim
                    else (\<lambda>s. (Inr (), s))))"

definition inserir_entradas :: "'a transacao_scheme list \<Rightarrow> unit acao" where
  "inserir_entradas df = inserir_generico df ''B'' 10 19"

definition inserir_gastos_fixos :: "'a transacao_scheme list \<Rightarrow> unit acao" where
  "inserir_gastos_fixos df = inserir_generico df ''H'' 17 26"

definition inserir_gastos_variaveis :: "'a transacao_scheme list \<Rightarrow> unit acao" where
  "inserir_gastos_variaveis df = inserir_generico df ''B'' 25 51"

text \<open>The data frame with the column \<open>Hash\<close>, and with the columns of the classification.\<close>

record transacao_hash = transacao +
  Hash :: string

record transacao_class = transacao_hash +
  Categoria :: string
  Tipo :: string
  EhFixo :: bool
  Forma :: string

definition classificar_linha :: "transacao_hash \<Rightarrow> transacao_class" where
  "classificar_linha row =
     (case categorizar (Descricao row) (numero (Valor row)) of
        (categoria, tipo, eh_fixo) \<Rightarrow>
          \<lparr>Data = Data row, Descricao = Descricao row, Valor = Valor row, Hash = Hash row,
           Categoria = categoria, Tipo = tipo, EhFixo = eh_fixo,
           Forma = identificar_forma_pagamento (Descricao row)\<rparr>)"

definition processar_insercoes :: "transacao_hash list \<Rightarrow> unit acao" where
  "processar_insercoes df =
     (let dfc = map classificar_linha df in
      seq (inserir_entradas (filter (\<lambda>r. Tipo r = ''Receita'') dfc)) (\<lambda>_.
      seq (inserir_gastos_fixos (filter (\<lambda>r. Tipo r = ''Despesa'' \<and> EhFixo r) dfc)) (\<lambda>_.
      inserir_gastos_variaveis (filter (\<lambda>r. Tipo r = ''Despesa'' \<and> \<not> EhFixo r) dfc))))"

text \<open>The row \<open>[Hash, Data, Descricao, Valor, Data_Importacao]\<close> of a record; \<open>agora\<close> is the
  text of \<open>datetime.now().strftime('%d/%m/%Y %H:%M:%S')\<close>.\<close>

definition linha_historico :: "string \<Rightarrow> transacao_hash \<Rightarrow> celula list" where
  "linha_historico agora row =
     [Texto (Hash row), Texto (Data row), Texto (Descricao row), Numero (numero (Valor row)),
      Texto agora]"

text \<open>\<open>_atualizar_historico\<close>: whatever the body raises is caught and logged.\<close>

definition atualizar_historico :: "string \<Rightarrow> transacao_hash list \<Rightarrow> unit acao" where
  "atualizar_historico agora df s =
     (case seq worksheet_historico (\<lambda>_.
           seq historico_get_all_values (\<lambda>valores.
             historico_update (map (linha_historico agora) df) (length valores + 1))) s of
        (Inl e, s') \<Rightarrow> (Inr (), s')
      | (Inr _, s') \<Rightarrow> (Inr (), s'))"

definition com_hash ::
  "(string \<Rightarrow> string) \<Rightarrow> (valor \<Rightarrow> string) \<Rightarrow> transacao \<Rightarrow> transacao_hash" where
  "com_hash md5 str_valor row =
     \<lparr>Data = Data row, Descricao = Descricao row, Valor = Valor row,
      Hash = gerar_hash_transacao md5 str_valor row\<rparr>"

definition novas :: "celula set \<Rightarrow> transacao_hash list \<Rightarrow> transacao_hash list" where
  "novas hashes_existentes df = filter (\<lambda>row. Texto (Hash row) \<notin> hashes_existentes) df"

definition importar_transacoes ::
  "(string \<Rightarrow> string) \<Rightarrow> (valor \<Rightarrow> string) \<Rightarrow> string \<Rightarrow> transacao list \<Rightarrow> unit acao" where
  "importar_transacoes md5 str_valor agora df =
     seq get_transacoes_existentes (\<lambda>hashes_existentes.
       let df_novas = novas hashes_existentes (map (com_hash md5 str_valor) df) in
       if df_novas = [] then (\<lambda>s. (Inr (), s))
       else seq (processar_insercoes df_novas) (\<lambda>_. atualizar_historico agora df_novas))"

text \<open>
  How a run used the outcomes of the remote calls: \<open>falhou xs ys\<close> says that the calls made
  took the outcomes \<open>xs\<close> down to \<open>ys\<close> and the last of them failed; \<open>passou xs ys\<close> that
  they took \<open>xs\<close> down to \<open>ys\<close> and none failed. \<open>resultado_rede\<close> is the rule of an
  operation that raises exactly when a call fails in transport.
\<close>

fun falhou :: "bool list \<Rightarrow> bool list \<Rightarrow> bool" where
  "falhou [] ys = False"
| "falhou (ok # xs) ys = (if ok then falhou xs ys else xs = ys)"

fun passou :: "bool list \<Rightarrow> bool list \<Rightarrow> bool" where
  "passou [] ys = (ys = [])"
| "passou (ok # xs) ys = (ok # xs = ys \<or> (ok \<and> passou xs ys))"

definition resultado_rede :: "erro + 'a \<Rightarrow> bool list \<Rightarrow> bool list \<Rightarrow> bool" where
  "resultado_rede r xs ys =
     (case r of Inl e \<Rightarrow> e = APIError \<and> falhou xs ys | Inr x \<Rightarrow> passou xs ys)"

text \<open>
  The worksheet \<open>Historico\<close> is missing, or the first cell of its first row reads \<open>Hash\<close>, as
  in the header that \<open>_criar_aba_historico\<close> writes.
\<close>

definition historico_com_cabecalho :: "planilha \<Rightarrow> bool" where
  "historico_com_cabecalho s =
     (case aba_historico s of
        None \<Rightarrow> True
      | Some h \<Rightarrow> (case valores_api h of (c # _) # _ \<Rightarrow> c = Texto ''Hash'' | _ \<Rightarrow> False))"

section \<open>Example data\<close>

text \<open>The record of the end-to-end example, and two more records.\<close>

definition uber_trip :: transacao where
  "uber_trip = \<lparr>Data = ''05/01/2024'', Descricao = ''UBER *TRIP'', Valor = Float64 (- 23.5)\<rparr>"

definition padaria :: transacao where
  "padaria = \<lparr>Data = ''06/01/2024'', Descricao = ''Padaria Central'',
               Valor = Float64 (- 12)\<rparr>"

definition farmacia :: transacao where
  "farmacia = \<lparr>Data = ''07/01/2024'', Descricao = ''Farmacia Popular'',
                Valor = Float64 (- 30)\<rparr>"

text \<open>A spreadsheet with a blank month worksheet, no worksheet \<open>Historico\<close>, and a
  network that does not fail.\<close>

definition planilha_vazia :: planilha where
  "planilha_vazia = \<lparr>aba_mes = (\<lambda>coluna linha. Texto []), aba_historico = None, rede = []\<rparr>"

text \<open>The same with the cells of column B occupied in the rows \<open>ocupadas\<close>.\<close>

definition planilha_com :: "nat list \<Rightarrow> planilha" where
  "planilha_com ocupadas =
     \<lparr>aba_mes = (\<lambda>coluna linha.
        if coluna = ''B'' \<and> linha \<in> set ocupadas then Texto ''x'' else Texto []),
      aba_historico = None, rede = []\<rparr>"

text \<open>A spreadsheet whose month worksheet has every cell occupied.\<close>

definition planilha_cheia :: planilha where
  "planilha_cheia = \<lparr>aba_mes = (\<lambda>coluna linha. Texto ''x''), aba_historico = None, rede = []\<rparr>"

section \<open>Facts about strings\<close>

lemma sublist_filter_keep:
  assumes "sublist xs ys" and "\<forall>x\<in>set xs. P x"
  shows "sublist xs (filter P ys)"
proof -
  from assms(1) obtain ps ss where "ys = ps @ xs @ ss" by (auto simp: sublist_def)
  moreover have "filter P xs = xs" using assms(2) by (simp add: filter_id_conv)
  ultimately have "filter P ys = filter P ps @ xs @ filter P ss" by simp
  then show ?thesis by (metis sublist_appendI)
qed

lemma sublist_limpar:
  assumes "sublist xs ys"
    and "CHR '' '' \<notin> set xs" "CHR ''.'' \<notin> set xs" "CHR ''-'' \<notin> set xs"
  shows "sublist xs (limpar ys)"
  unfolding limpar_def replace_vazio_def using assms
  by (auto intro!: sublist_filter_keep)

lemma sublist_lower:
  assumes "sublist k d" and "lower k = k"
  shows "sublist k (lower d)"
  using map_mono_sublist [OF assms(1), of lower_char] assms(2) by (simp add: lower_def)

lemma separa_primeiro:
  assumes "c \<notin> set x1" "c \<notin> set x2" "x1 @ c # r1 = x2 @ c # r2"
  shows "x1 = x2 \<and> r1 = r2"
  using assms by (auto simp: append_eq_Cons_conv Cons_eq_append_conv append_eq_append_conv2)

lemma separa_ultimo:
  assumes "c \<notin> set v1" "c \<notin> set v2" "x1 @ c # v1 = x2 @ c # v2"
  shows "x1 = x2 \<and> v1 = v2"
proof -
  have "rev v1 @ c # rev x1 = rev v2 @ c # rev x2"
    using arg_cong [OF assms(3), of rev] by simp
  moreover have "c \<notin> set (rev v1)" "c \<notin> set (rev v2)" using assms by simp_all
  ultimately have "rev v1 = rev v2 \<and> rev x1 = rev x2" by (rule separa_primeiro [rotated 2])
  then show ?thesis by simp
qed

lemma data_ddmmyyyy_sem_barra: "data_ddmmyyyy s \<Longrightarrow> CHR ''|'' \<notin> set s"
  by (auto simp: data_ddmmyyyy_def digito_def Let_def split: list.splits)

section \<open>The classifier\<close>

lemma eh_fixo_aluguel:
  assumes "sublist ''aluguel'' desc"
  shows "eh_fixo_loop GASTOS_FIXOS_KEYWORDS (limpar desc)"
proof -
  have "sublist ''aluguel'' (limpar desc)" using assms by (rule sublist_limpar) simp_all
  moreover have "limpar ''aluguel'' = ''aluguel''" by (simp add: limpar_def replace_vazio_def)
  ultimately show ?thesis by (simp add: GASTOS_FIXOS_KEYWORDS_def)
qed

text \<open>
  C8, as the code has it. A description whose lower-case form contains "aluguel", with an
  amount that is not positive and no income marker, is a fixed expense; but its category is
  never the fallback "Necessidade", since "aluguel" is a keyword of the category "Casa": the
  category is that of the first of the categories Transporte, Delivery, Lazer, Saude and
  Farmacia, in this order, one of whose keywords occurs in the lower-case description, and
  "Casa" when none does.
\<close>

theorem c8_aluguel_fixo:
  assumes "sublist ''aluguel'' (lower descricao)"
    and "\<not> valor > 0"
    and "\<not> sublist ''recebida'' (lower descricao)"
    and "\<not> sublist ''salario'' (lower descricao)"
  shows "categorizar descricao valor =
           ((if list_ex (\<lambda>p. sublist p (lower descricao))
                  [''uber'', ''99'', ''taxi'', ''gasolina'', ''posto'', ''ipva'',
                   ''estacionamento'', ''onibus'', ''metro'']
             then ''Transporte''
             else if list_ex (\<lambda>p. sublist p (lower descricao))
                  [''ifood'', ''rappi'', ''uber eats'', ''delivery'']
             then ''Delivery''
             else if list_ex (\<lambda>p. sublist p (lower descricao))
                  [''cinema'', ''netflix'', ''spotify'', ''prime'', ''disney'', ''restaurante'',
                   ''bar'', ''show'']
             then ''Lazer''
             else if list_ex (\<lambda>p. sublist p (lower descricao))
                  [''medico'', ''hospital'', ''laboratorio'', ''consulta'', ''exame'', ''clinica'']
             then ''Saude''
             else if list_ex (\<lambda>p. sublist p (lower descricao))
                  [''farmacia'', ''droga'', ''drogaria'', ''remedio'']
             then ''Farmacia''
             else ''Casa''), ''Despesa'', True) \<and>
         fst (categorizar descricao valor) \<noteq> ''Necessidade''"
proof -
  let ?c = "if list_ex (\<lambda>p. sublist p (lower descricao))
                  [''uber'', ''99'', ''taxi'', ''gasolina'', ''posto'', ''ipva'',
                   ''estacionamento'', ''onibus'', ''metro'']
             then ''Transporte''
             else if list_ex (\<lambda>p. sublist p (lower descricao))
                  [''ifood'', ''rappi'', ''uber eats'', ''delivery'']
             then ''Delivery''
             else if list_ex (\<lambda>p. sublist p (lower descricao))
                  [''cinema'', ''netflix'', ''spotify'', ''prime'', ''disney'', ''restaurante'',
                   ''bar'', ''show'']
             then ''Lazer''
             else if list_ex (\<lambda>p. sublist p (lower descricao))
                  [''medico'', ''hospital'', ''laboratorio'', ''consulta'', ''exame'', ''clinica'']
             then ''Saude''
             else if list_ex (\<lambda>p. sublist p (lower descricao))
                  [''farmacia'', ''droga'', ''drogaria'', ''remedio'']
             then ''Farmacia''
             else ''Casa''"
  have c: "categoria_loop MAPEAMENTO (lower descricao) = Some ?c"
    using assms(1) by (simp add: MAPEAMENTO_def)
  have cat: "categorizar descricao valor = (?c, ''Despesa'', True)"
    using assms(2-4) eh_fixo_aluguel [OF assms(1)]
    by (simp only: categorizar_def Let_def c) simp
  have "?c \<noteq> ''Necessidade''" by (simp split: if_splits)
  with cat show ?thesis by (simp only: fst_conv) simp
qed

theorem c8_aluguel_fixo_witness:
  "sublist ''aluguel'' (lower ''Aluguel apto'') \<and> \<not> (- 1500 :: real) > 0 \<and>
   \<not> sublist ''recebida'' (lower ''Aluguel apto'') \<and>
   \<not> sublist ''salario'' (lower ''Aluguel apto'') \<and>
   categorizar ''Aluguel apto'' (- 1500) = (''Casa'', ''Despesa'', True)"
proof -
  have h1: "sublist ''aluguel'' (lower ''Aluguel apto'')" by code_simp
  have h2: "\<not> (- 1500 :: real) > 0" by simp
  have h3: "\<not> sublist ''recebida'' (lower ''Aluguel apto'')" by code_simp
  have h4: "\<not> sublist ''salario'' (lower ''Aluguel apto'')" by code_simp
  have n1: "\<not> list_ex (\<lambda>p. sublist p (lower ''Aluguel apto''))
                  [''uber'', ''99'', ''taxi'', ''gasolina'', ''posto'', ''ipva'',
                   ''estacionamento'', ''onibus'', ''metro'']" by code_simp
  have n2: "\<not> list_ex (\<lambda>p. sublist p (lower ''Aluguel apto''))
                  [''ifood'', ''rappi'', ''uber eats'', ''delivery'']" by code_simp
  have n3: "\<not> list_ex (\<lambda>p. sublist p (lower ''Aluguel apto''))
                  [''cinema'', ''netflix'', ''spotify'', ''prime'', ''disney'', ''restaurante'',
                   ''bar'', ''show'']" by code_simp
  have n4: "\<not> list_ex (\<lambda>p. sublist p (lower ''Aluguel apto''))
                  [''medico'', ''hospital'', ''laboratorio'', ''consulta'', ''exame'', ''clinica'']"
    by code_simp
  have n5: "\<not> list_ex (\<lambda>p. sublist p (lower ''Aluguel apto''))
                  [''farmacia'', ''droga'', ''drogaria'', ''remedio'']" by code_simp
  note t = conjunct1 [OF c8_aluguel_fixo [OF h1 h2 h3 h4]]
  have "categorizar ''Aluguel apto'' (- 1500) = (''Casa'', ''Despesa'', True)"
    using t by (simp only: n1 n2 n3 n4 n5 if_False)
  with h1 h2 h3 h4 show ?thesis by simp
qed

text \<open>
  C8 as the spec words it fails: the description "aluguel" with the amount -1500 meets its
  conditions and is classified "Casa", not "Necessidade".
\<close>

theorem c8_counterexample:
  "sublist ''aluguel'' ''aluguel'' \<and> sublist ''aluguel'' (lower ''aluguel'') \<and>
   \<not> (- 1500 :: real) > 0 \<and>
   \<not> sublist ''recebida'' (lower ''aluguel'') \<and> \<not> sublist ''salario'' (lower ''aluguel'') \<and>
   categorizar ''aluguel'' (- 1500) = (''Casa'', ''Despesa'', True) \<and>
   fst (categorizar ''aluguel'' (- 1500)) \<noteq> ''Necessidade''"
proof -
  have a: "sublist ''aluguel'' ''aluguel''" by code_simp
  have b: "sublist ''aluguel'' (lower ''aluguel'')" by code_simp
  have c: "\<not> sublist ''recebida'' (lower ''aluguel'')" by code_simp
  have d: "\<not> sublist ''salario'' (lower ''aluguel'')" by code_simp
  have e: "categorizar ''aluguel'' (- 1500) = (''Casa'', ''Despesa'', True)" by code_simp
  have f: "fst (categorizar ''aluguel'' (- 1500)) \<noteq> ''Necessidade''" by (simp add: e)
  from a b c d e f show ?thesis by simp
qed

text \<open>
  C9, as the code has it. A description whose lower-case form contains "ifood" and none of
  the keywords of "Transporte" (the category declared before "Delivery"), with an amount that
  is not positive and no income marker, has the category "Delivery" and the nature "Despesa".
\<close>

theorem c9_ifood_delivery:
  assumes "sublist ''ifood'' (lower descricao)"
    and "\<not> valor > 0"
    and "\<not> sublist ''recebida'' (lower descricao)"
    and "\<not> sublist ''salario'' (lower descricao)"
    and "\<not> list_ex (\<lambda>p. sublist p (lower descricao))
            [''uber'', ''99'', ''taxi'', ''gasolina'', ''posto'', ''ipva'', ''estacionamento'',
             ''onibus'', ''metro'']"
  shows "fst (categorizar descricao valor) = ''Delivery'' \<and>
         fst (snd (categorizar descricao valor)) = ''Despesa''"
proof -
  have "categoria_loop MAPEAMENTO (lower descricao) = Some ''Delivery''"
    using assms(1,5) by (simp add: MAPEAMENTO_def)
  then show ?thesis using assms(2-4) by (simp add: categorizar_def Let_def)
qed

theorem c9_ifood_delivery_witness:
  "sublist ''ifood'' (lower ''IFOOD *Pizzaria'') \<and> \<not> (- 40 :: real) > 0 \<and>
   \<not> sublist ''recebida'' (lower ''IFOOD *Pizzaria'') \<and>
   \<not> sublist ''salario'' (lower ''IFOOD *Pizzaria'') \<and>
   fst (categorizar ''IFOOD *Pizzaria'' (- 40)) = ''Delivery'' \<and>
   fst (snd (categorizar ''IFOOD *Pizzaria'' (- 40))) = ''Despesa''"
proof -
  have h1: "sublist ''ifood'' (lower ''IFOOD *Pizzaria'')" by code_simp
  have h2: "\<not> (- 40 :: real) > 0" by simp
  have h3: "\<not> sublist ''recebida'' (lower ''IFOOD *Pizzaria'')" by code_simp
  have h4: "\<not> sublist ''salario'' (lower ''IFOOD *Pizzaria'')" by code_simp
  have h5: "\<not> list_ex (\<lambda>p. sublist p (lower ''IFOOD *Pizzaria''))
            [''uber'', ''99'', ''taxi'', ''gasolina'', ''posto'', ''ipva'', ''estacionamento'',
             ''onibus'', ''metro'']" by code_simp
  from c9_ifood_delivery [OF h1 h2 h3 h4 h5] h1 h2 h3 h4 show ?thesis by simp
qed

text \<open>
  C9 as the spec words it fails: "ifood *pizzaria 99" with the amount -40 contains "ifood",
  has a negative amount and no income marker, and is classified "Transporte", because "99" is
  a keyword of the category scanned first.
\<close>

theorem c9_counterexample:
  "sublist ''ifood'' ''ifood *pizzaria 99'' \<and> sublist ''ifood'' (lower ''ifood *pizzaria 99'') \<and>
   (- 40 :: real) < 0 \<and>
   \<not> sublist ''recebida'' (lower ''ifood *pizzaria 99'') \<and>
   \<not> sublist ''salario'' (lower ''ifood *pizzaria 99'') \<and>
   categorizar ''ifood *pizzaria 99'' (- 40) = (''Transporte'', ''Despesa'', False) \<and>
   fst (categorizar ''ifood *pizzaria 99'' (- 40)) \<noteq> ''Delivery''"
proof -
  have a: "sublist ''ifood'' ''ifood *pizzaria 99''" by code_simp
  have b: "sublist ''ifood'' (lower ''ifood *pizzaria 99'')" by code_simp
  have c: "\<not> sublist ''recebida'' (lower ''ifood *pizzaria 99'')" by code_simp
  have d: "\<not> sublist ''salario'' (lower ''ifood *pizzaria 99'')" by code_simp
  have e: "categorizar ''ifood *pizzaria 99'' (- 40) = (''Transporte'', ''Despesa'', False)"
    by code_simp
  have f: "fst (categorizar ''ifood *pizzaria 99'' (- 40)) \<noteq> ''Delivery''" by (simp add: e)
  from a b c d e f show ?thesis by simp
qed

section \<open>The hash\<close>

text \<open>
  C5, as the code has it. The hash of a record is the MD5 digest of the text
  Data|Descricao|Valor, where the amount is written as the f-string writes the value of the
  column. Records with the same date, description and value have the same hash. For records
  with well-shaped dates, whose values are written without a bar and differently when they
  differ, records that differ in a field are hashed from different texts, so that their hashes
  can only agree through a collision of MD5 itself. And the same whole amount held as an int64
  and as a float64 is hashed from different texts.
\<close>

theorem c5_hash_do_texto:
  fixes r1 r2 :: transacao
  shows "gerar_hash_transacao md5 str_valor r1 =
           md5 (Data r1 @ ''|'' @ Descricao r1 @ ''|'' @ str_valor (Valor r1)) \<and>
         (Data r1 = Data r2 \<and> Descricao r1 = Descricao r2 \<and> Valor r1 = Valor r2 \<longrightarrow>
            gerar_hash_transacao md5 str_valor r1 = gerar_hash_transacao md5 str_valor r2) \<and>
         (data_ddmmyyyy (Data r1) \<and> data_ddmmyyyy (Data r2) \<and>
          CHR ''|'' \<notin> set (str_valor (Valor r1)) \<and> CHR ''|'' \<notin> set (str_valor (Valor r2)) \<and>
          (str_valor (Valor r1) = str_valor (Valor r2) \<longrightarrow> Valor r1 = Valor r2) \<and>
          (Data r1 \<noteq> Data r2 \<or> Descricao r1 \<noteq> Descricao r2 \<or> Valor r1 \<noteq> Valor r2) \<longrightarrow>
            texto_hash str_valor r1 \<noteq> texto_hash str_valor r2 \<and>
            (gerar_hash_transacao md5 str_valor r1 = gerar_hash_transacao md5 str_valor r2 \<longrightarrow>
               (\<exists>t1 t2. t1 \<noteq> t2 \<and> md5 t1 = md5 t2))) \<and>
         (\<bar>i\<bar> < 10 ^ 16 \<longrightarrow>
            numero (Int64 i) = numero (Float64 (of_int i)) \<and>
            texto_hash (str_valor_py repr_fracionario) (r1\<lparr>Valor := Int64 i\<rparr>) \<noteq>
            texto_hash (str_valor_py repr_fracionario) (r1\<lparr>Valor := Float64 (of_int i)\<rparr>))"
proof (intro conjI impI)
  show "gerar_hash_transacao md5 str_valor r1 =
          md5 (Data r1 @ ''|'' @ Descricao r1 @ ''|'' @ str_valor (Valor r1))"
    by (simp add: gerar_hash_transacao_def texto_hash_def)
next
  assume "Data r1 = Data r2 \<and> Descricao r1 = Descricao r2 \<and> Valor r1 = Valor r2"
  then show "gerar_hash_transacao md5 str_valor r1 = gerar_hash_transacao md5 str_valor r2"
    by (simp add: gerar_hash_transacao_def texto_hash_def)
next
  assume h: "data_ddmmyyyy (Data r1) \<and> data_ddmmyyyy (Data r2) \<and>
          CHR ''|'' \<notin> set (str_valor (Valor r1)) \<and> CHR ''|'' \<notin> set (str_valor (Valor r2)) \<and>
          (str_valor (Valor r1) = str_valor (Valor r2) \<longrightarrow> Valor r1 = Valor r2) \<and>
          (Data r1 \<noteq> Data r2 \<or> Descricao r1 \<noteq> Descricao r2 \<or> Valor r1 \<noteq> Valor r2)"
  have d: "CHR ''|'' \<notin> set (Data r1)" "CHR ''|'' \<notin> set (Data r2)"
    using h data_ddmmyyyy_sem_barra by blast+
  show dif: "texto_hash str_valor r1 \<noteq> texto_hash str_valor r2"
  proof
    assume eq: "texto_hash str_valor r1 = texto_hash str_valor r2"
    then have e1: "Data r1 @ CHR ''|'' # (Descricao r1 @ CHR ''|'' # str_valor (Valor r1)) =
                   Data r2 @ CHR ''|'' # (Descricao r2 @ CHR ''|'' # str_valor (Valor r2))"
      by (simp add: texto_hash_def)
    have e23: "Data r1 = Data r2 \<and>
               Descricao r1 @ CHR ''|'' # str_valor (Valor r1) =
               Descricao r2 @ CHR ''|'' # str_valor (Valor r2)"
      using d e1 by (rule separa_primeiro)
    have v: "CHR ''|'' \<notin> set (str_valor (Valor r1))" "CHR ''|'' \<notin> set (str_valor (Valor r2))"
      using h by simp_all
    have "Descricao r1 = Descricao r2 \<and> str_valor (Valor r1) = str_valor (Valor r2)"
      using v conjunct2 [OF e23] by (rule separa_ultimo)
    then show False using h e23 by auto
  qed
  assume "gerar_hash_transacao md5 str_valor r1 = gerar_hash_transacao md5 str_valor r2"
  then have "md5 (texto_hash str_valor r1) = md5 (texto_hash str_valor r2)"
    by (simp add: gerar_hash_transacao_def)
  with dif show "\<exists>t1 t2. t1 \<noteq> t2 \<and> md5 t1 = md5 t2"
    by (intro exI [of _ "texto_hash str_valor r1"] exI [of _ "texto_hash str_valor r2"]) simp
next
  show "numero (Int64 i) = numero (Float64 (of_int i))" by (simp add: numero_def)
next
  assume i: "\<bar>i\<bar> < 10 ^ 16"
  then have "\<bar>of_int i :: real\<bar> < 10 ^ 16"
    using of_int_less_iff [of "\<bar>i\<bar>" "10 ^ 16", where ?'a = real] by simp
  then have "str_valor_py repr_fracionario (Float64 (of_int i)) = str_int i @ ''.0''"
    by (simp add: str_valor_py_def)
  moreover have "str_valor_py repr_fracionario (Int64 i) = str_int i"
    by (simp add: str_valor_py_def)
  ultimately show "texto_hash (str_valor_py repr_fracionario) (r1\<lparr>Valor := Int64 i\<rparr>) \<noteq>
            texto_hash (str_valor_py repr_fracionario) (r1\<lparr>Valor := Float64 (of_int i)\<rparr>)"
    by (simp add: texto_hash_def)
qed

theorem c5_hash_do_texto_witness:
  "data_ddmmyyyy (Data uber_trip) \<and> data_ddmmyyyy (Data padaria) \<and>
   texto_hash (\<lambda>v. ''-23.5'') uber_trip \<noteq> texto_hash (\<lambda>v. ''-23.5'') (padaria\<lparr>Valor := Float64 (- 23.5)\<rparr>) \<and>
   gerar_hash_transacao (\<lambda>t. t) (\<lambda>v. ''-23.5'') uber_trip = ''05/01/2024|UBER *TRIP|-23.5''"
proof -
  let ?r2 = "padaria\<lparr>Valor := Float64 (- 23.5)\<rparr>"
  note t = c5_hash_do_texto [of "\<lambda>t. t" "\<lambda>v. ''-23.5''" uber_trip ?r2 0 "\<lambda>r. []"]
  have d1: "data_ddmmyyyy (Data uber_trip)" by code_simp
  have d2: "data_ddmmyyyy (Data padaria)" by code_simp
  have d2': "data_ddmmyyyy (Data ?r2)" using d2 by simp
  have v: "CHR ''|'' \<notin> set ''-23.5''" by simp
  have ne: "Data uber_trip \<noteq> Data ?r2" by (simp add: uber_trip_def padaria_def)
  have ve: "Valor uber_trip = Valor ?r2" by (simp add: uber_trip_def)
  have "texto_hash (\<lambda>v. ''-23.5'') uber_trip \<noteq> texto_hash (\<lambda>v. ''-23.5'') ?r2"
    using conjunct1 [OF conjunct2 [OF conjunct2 [OF t]]] d1 d2' v ne ve by simp
  moreover have "gerar_hash_transacao (\<lambda>t. t) (\<lambda>v. ''-23.5'') uber_trip =
      ''05/01/2024|UBER *TRIP|-23.5''"
    using conjunct1 [OF t] by (simp add: uber_trip_def)
  ultimately show ?thesis using d1 d2 by simp
qed

text \<open>
  C5 as the spec words it fails: the hash is not taken from the amount but from the value of
  the column. The record of 06/01/2024, "Padaria Central", with the amount -12 is hashed from
  the text ending in "-12" when the column is int64 and from the text ending in "-12.0" when
  it is float64 (some other amount of the file has a decimal point): the same date,
  description and amount, and two different texts under MD5.
\<close>

theorem c5_counterexample:
  "numero (Int64 (- 12)) = numero (Float64 (- 12)) \<and>
   (\<forall>md5 repr_fracionario.
      gerar_hash_transacao md5 (str_valor_py repr_fracionario)
        \<lparr>Data = ''06/01/2024'', Descricao = ''Padaria Central'', Valor = Int64 (- 12)\<rparr> =
      md5 ''06/01/2024|Padaria Central|-12'' \<and>
      gerar_hash_transacao md5 (str_valor_py repr_fracionario)
        \<lparr>Data = ''06/01/2024'', Descricao = ''Padaria Central'', Valor = Float64 (- 12)\<rparr> =
      md5 ''06/01/2024|Padaria Central|-12.0'') \<and>
   ''06/01/2024|Padaria Central|-12'' \<noteq> ''06/01/2024|Padaria Central|-12.0''"
proof -
  have a: "numero (Int64 (- 12)) = numero (Float64 (- 12))" by (simp add: numero_def)
  have d: "digitos 12 = ''12''" by code_simp
  have i: "str_int (- 12) = ''-12''" by (simp add: str_int_def d)
  have f: "str_valor_py repr_fracionario (Float64 (- 12)) = ''-12.0''" for repr_fracionario
    by (simp add: str_valor_py_def i)
  have g: "str_valor_py repr_fracionario (Int64 (- 12)) = ''-12''" for repr_fracionario
    by (simp add: str_valor_py_def i)
  have b: "\<forall>md5 repr_fracionario.
      gerar_hash_transacao md5 (str_valor_py repr_fracionario)
        \<lparr>Data = ''06/01/2024'', Descricao = ''Padaria Central'', Valor = Int64 (- 12)\<rparr> =
      md5 ''06/01/2024|Padaria Central|-12'' \<and>
      gerar_hash_transacao md5 (str_valor_py repr_fracionario)
        \<lparr>Data = ''06/01/2024'', Descricao = ''Padaria Central'', Valor = Float64 (- 12)\<rparr> =
      md5 ''06/01/2024|Padaria Central|-12.0''"
    by (simp add: gerar_hash_transacao_def texto_hash_def f g)
  have c: "''06/01/2024|Padaria Central|-12'' \<noteq> ''06/01/2024|Padaria Central|-12.0''" by simp
  from a b c show ?thesis by (intro conjI)
qed

section \<open>Operations on the spreadsheet\<close>

lemma seq_Inl: "m s = (Inl e, s') \<Longrightarrow> seq m f s = (Inl e, s')"
  by (simp add: seq_def)

lemma seq_Inr: "m s = (Inr x, s') \<Longrightarrow> seq m f s = f x s'"
  by (simp add: seq_def)

lemma chamada_ok: "rede s = [] \<Longrightarrow> chamada s = (Inr (), s)"
  by (simp add: chamada_def)

lemma chamada_campos:
  "aba_mes (snd (chamada s)) = aba_mes s" "aba_historico (snd (chamada s)) = aba_historico s"
  by (simp_all add: chamada_def split: list.splits)

lemma chamada_casos:
  "chamada s = (r, s') \<Longrightarrow> aba_mes s' = aba_mes s \<and> aba_historico s' = aba_historico s \<and>
     (rede s = [] \<longrightarrow> r = Inr () \<and> rede s' = [])"
  by (auto simp: chamada_def split: list.splits)

lemma primeira_vazia_limites:
  "primeira_vazia vs n = Some l \<Longrightarrow> n \<le> l \<and> l < n + length vs"
  by (induction vs n rule: primeira_vazia.induct) (auto split: if_splits)

lemma aba_mes_get_casos:
  assumes "aba_mes_get col i f s = (r, s')"
  shows "aba_mes s' = aba_mes s \<and> aba_historico s' = aba_historico s \<and>
         (rede s = [] \<longrightarrow> rede s' = [] \<and>
            r = Inr (valores_api (map (\<lambda>linha. [aba_mes s col linha]) [i..<Suc f])))"
proof -
  obtain r0 s0 where c: "chamada s = (r0, s0)" by (cases "chamada s")
  note k = chamada_casos [OF c]
  show ?thesis
  proof (cases r0)
    case (Inl e)
    with assms c k show ?thesis by (simp add: aba_mes_get_def seq_def)
  next
    case (Inr x)
    with assms c k show ?thesis by (auto simp: aba_mes_get_def seq_def)
  qed
qed

lemma encontrar_casos:
  assumes "encontrar_proxima_linha_vazia col i f s = (r, s')"
  shows "aba_mes s' = aba_mes s \<and> aba_historico s' = aba_historico s \<and>
         (\<forall>l. r = Inr (Some l) \<longrightarrow> i \<le> l) \<and>
         (rede s = [] \<longrightarrow> rede s' = [] \<and> (\<exists>l. r = Inr l))"
proof (cases "aba_mes_get col i f s")
  case (Pair r0 s0)
  note g = aba_mes_get_casos [OF Pair]
  show ?thesis
  proof (cases r0)
    case (Inl e)
    with Pair assms g show ?thesis
      by (auto simp: encontrar_proxima_linha_vazia_def seq_def)
  next
    case (Inr vs)
    with Pair assms g show ?thesis
      by (auto simp: encontrar_proxima_linha_vazia_def seq_def dest: primeira_vazia_limites
               split: if_splits)
  qed
qed

lemma update_aba_mes_casos:
  assumes "update_aba_mes v col l s = (r, s')"
  shows "aba_historico s' = aba_historico s \<and>
         aba_mes s' = (if r = Inr () then (aba_mes s)(col := (aba_mes s col)(l := Texto v))
                       else aba_mes s) \<and>
         (rede s = [] \<longrightarrow> r = Inr () \<and> rede s' = [])"
proof -
  obtain r0 s0 where c: "chamada s = (r0, s0)" by (cases "chamada s")
  note k = chamada_casos [OF c]
  show ?thesis
  proof (cases r0)
    case (Inl e)
    with assms c k show ?thesis by (auto simp: update_aba_mes_def seq_def)
  next
    case (Inr x)
    with assms c k show ?thesis by (auto simp: update_aba_mes_def seq_def)
  qed
qed

lemma inserir_loop_quadro:
  "inserir_loop df col l f s = (r, s') \<Longrightarrow>
     aba_historico s' = aba_historico s \<and>
     (\<forall>c k. (c \<noteq> col \<or> k < l \<or> f < k) \<longrightarrow> aba_mes s' c k = aba_mes s c k)"
proof (induction df arbitrary: l s)
  case Nil
  then show ?case by simp
next
  case (Cons row resto)
  show ?case
  proof (cases "l > f")
    case True
    with Cons.prems show ?thesis by simp
  next
    case False
    obtain r1 s1 where u: "update_aba_mes (take 50 (Descricao row)) col l s = (r1, s1)"
      by (cases "update_aba_mes (take 50 (Descricao row)) col l s")
    note c = update_aba_mes_casos [OF u]
    show ?thesis
    proof (cases r1)
      case (Inl e)
      with Cons.prems False u have "s' = s1" by simp
      with c Inl show ?thesis by simp
    next
      case (Inr x)
      with Cons.prems False u have "inserir_loop resto col (l + 1) f s1 = (r, s')" by simp
      note ih = Cons.IH [OF this]
      have m: "aba_mes s1 = (aba_mes s)(col := (aba_mes s col)(l := Texto (take 50 (Descricao row))))"
        using c Inr by simp
      have "aba_mes s' c k = aba_mes s c k" if "c \<noteq> col \<or> k < l \<or> f < k" for c k
      proof -
        have "aba_mes s' c k = aba_mes s1 c k" using ih that by auto
        also have "\<dots> = aba_mes s c k" using that False by (auto simp: m)
        finally show ?thesis .
      qed
      with ih c show ?thesis by simp
    qed
  qed
qed

lemma inserir_loop_sem_falha:
  "rede s = [] \<Longrightarrow> inserir_loop df col l f s = (r, s') \<Longrightarrow>
     r = Inr () \<and> rede s' = [] \<and>
     (\<forall>k. aba_mes s' col k =
        (if l \<le> k \<and> k \<le> f \<and> k < l + length df
         then Texto (take 50 (Descricao (df ! (k - l)))) else aba_mes s col k))"
proof (induction df arbitrary: l s)
  case Nil
  then show ?case by auto
next
  case (Cons row resto)
  show ?case
  proof (cases "l > f")
    case True
    with Cons.prems show ?thesis by auto
  next
    case False
    obtain r1 s1 where u: "update_aba_mes (take 50 (Descricao row)) col l s = (r1, s1)"
      by (cases "update_aba_mes (take 50 (Descricao row)) col l s")
    note c = update_aba_mes_casos [OF u]
    from c Cons.prems(1) have r1: "r1 = Inr ()" and s1: "rede s1 = []" by simp_all
    from Cons.prems(2) False u r1 have rec: "inserir_loop resto col (l + 1) f s1 = (r, s')"
      by simp
    note ih = Cons.IH [OF s1 rec]
    have m: "aba_mes s1 col = (aba_mes s col)(l := Texto (take 50 (Descricao row)))"
      using c r1 by simp
    have "aba_mes s' col k =
        (if l \<le> k \<and> k \<le> f \<and> k < l + length (row # resto)
         then Texto (take 50 (Descricao ((row # resto) ! (k - l)))) else aba_mes s col k)" for k
    proof (cases "k = l")
      case True
      have "aba_mes s' col k = aba_mes s1 col k" using ih True by simp
      with True m False show ?thesis by simp
    next
      case kl: False
      have e: "aba_mes s' col k =
        (if l + 1 \<le> k \<and> k \<le> f \<and> k < l + 1 + length resto
         then Texto (take 50 (Descricao (resto ! (k - (l + 1))))) else aba_mes s1 col k)"
        using ih by simp
      show ?thesis
      proof (cases "l \<le> k \<and> k \<le> f \<and> k < l + length (row # resto)")
        case True
        with kl have "l + 1 \<le> k \<and> k \<le> f \<and> k < l + 1 + length resto" by auto
        moreover from True kl have "(row # resto) ! (k - l) = resto ! (k - (l + 1))"
          by (simp add: nth_Cons')
        ultimately show ?thesis using e True by simp
      next
        case False
        then have n: "\<not> (l + 1 \<le> k \<and> k \<le> f \<and> k < l + 1 + length resto)" by auto
        have "aba_mes s' col k = aba_mes s1 col k" using e n by (simp only: if_False)
        also have "\<dots> = aba_mes s col k" using m kl by simp
        finally show ?thesis using False by (simp only: if_False)
      qed
    qed
    then have a: "\<forall>k. aba_mes s' col k =
        (if l \<le> k \<and> k \<le> f \<and> k < l + length (row # resto)
         then Texto (take 50 (Descricao ((row # resto) ! (k - l)))) else aba_mes s col k)" ..
    have b: "r = Inr ()" by (rule conjunct1 [OF ih])
    have c: "rede s' = []" by (rule conjunct1 [OF conjunct2 [OF ih]])
    from b c a show ?thesis by (intro conjI)
  qed
qed


section \<open>The values the API returns\<close>

lemma aparar_sufixo:
  assumes "\<forall>x\<in>set ys. P x"
  shows "rev (dropWhile P (rev (xs @ ys))) = rev (dropWhile P (rev xs))"
proof -
  have "dropWhile P (rev ys @ rev xs) = dropWhile P (rev xs)"
    by (rule dropWhile_append2) (use assms in auto)
  then show ?thesis by simp
qed

lemma aparar_ultimo:
  assumes "xs = [] \<or> \<not> P (last xs)"
  shows "rev (dropWhile P (rev xs)) = xs"
proof (cases xs rule: rev_cases)
  case Nil
  then show ?thesis by simp
next
  case (snoc ys y)
  with assms show ?thesis by simp
qed

lemma aparar_decompoe:
  "\<exists>zs. xs = rev (dropWhile P (rev xs)) @ zs \<and> (\<forall>z\<in>set zs. P z)"
proof -
  have "rev (takeWhile P (rev xs) @ dropWhile P (rev xs)) = xs"
    by (simp only: takeWhile_dropWhile_id rev_rev_ident)
  then have "xs = rev (dropWhile P (rev xs)) @ rev (takeWhile P (rev xs))"
    by (simp only: rev_append)
  moreover have "\<forall>z\<in>set (rev (takeWhile P (rev xs))). P z"
    by (auto dest: set_takeWhileD)
  ultimately show ?thesis by blast
qed

lemma aparar_fim_ultimo:
  "rev (dropWhile P (rev xs)) = [] \<or> \<not> P (last (rev (dropWhile P (rev xs))))"
proof (cases "dropWhile P (rev xs)")
  case Nil
  then show ?thesis by simp
next
  case (Cons y ys)
  then have "\<not> P y" using hd_dropWhile [of P "rev xs"] by simp
  with Cons show ?thesis by simp
qed

lemma aparar_linha_vazia: "aparar_linha x = [] \<longleftrightarrow> (\<forall>c\<in>set x. em_branco c)"
  by (auto simp: aparar_linha_def dropWhile_eq_Nil_conv)

lemma valores_api_decompoe:
  "\<exists>j. map aparar_linha h = valores_api h @ replicate j []"
proof -
  obtain zs where z: "map aparar_linha h = valores_api h @ zs" "\<forall>z\<in>set zs. z = []"
    using aparar_decompoe [of "map aparar_linha h" "\<lambda>l. l = []"]
    by (auto simp: valores_api_def aparar_fim_def)
  from z(2) have "zs = replicate (length zs) []"
    by (simp add: replicate_length_same)
  with z(1) show ?thesis by metis
qed

lemma valores_api_ultimo: "valores_api h = [] \<or> last (valores_api h) \<noteq> []"
  unfolding valores_api_def aparar_fim_def by (rule aparar_fim_ultimo)

lemma aparar_fim_replicate: "aparar_fim (xs @ replicate j []) = aparar_fim xs"
  unfolding aparar_fim_def by (rule aparar_sufixo) simp

lemma aparar_fim_id: "xs = [] \<or> last xs \<noteq> [] \<Longrightarrow> aparar_fim xs = xs"
  unfolding aparar_fim_def by (rule aparar_ultimo)

lemma sobrepor_em_branco:
  assumes "\<forall>c\<in>set x. em_branco c"
  shows "aparar_linha (sobrepor d x) = aparar_linha d"
proof -
  have "\<forall>c\<in>set (drop (length d) x). em_branco c" using assms by (auto dest: in_set_dropD)
  then show ?thesis unfolding aparar_linha_def sobrepor_def by (rule aparar_sufixo)
qed

lemma map2_sobrepor_em_branco:
  assumes "length ds = length xs" and "\<forall>x\<in>set xs. \<forall>c\<in>set x. em_branco c"
  shows "map aparar_linha (map2 sobrepor ds xs) = map aparar_linha ds"
  using assms
proof (induction ds xs rule: list_induct2)
  case Nil
  then show ?case by simp
next
  case (Cons d ds x xs)
  then show ?case by (simp add: sobrepor_em_branco)
qed


lemma valores_api_escrever_bloco:
  "valores_api (escrever_bloco dados (length (valores_api h) + 1) h) =
     aparar_fim (valores_api h @ map aparar_linha dados)"
proof -
  define V where "V = valores_api h"
  define m where "m = length V"
  define k where "k = length dados"
  obtain j where dj: "map aparar_linha h = V @ replicate j []"
    using valores_api_decompoe [of h] unfolding V_def by blast
  have lh: "length h = m + j"
    using arg_cong [OF dj, of length] by (simp add: m_def)
  define h1 where "h1 = take m h"
  define h2 where "h2 = drop m h"
  define t where "t = h2 @ replicate (k - j) []"
  have h12: "h = h1 @ h2" by (simp add: h1_def h2_def)
  have lh1: "length h1 = m" using lh by (simp add: h1_def)
  have mh1: "map aparar_linha h1 = V"
    using arg_cong [OF dj, of "take m"] by (simp add: h1_def take_map m_def)
  have mh2: "map aparar_linha h2 = replicate j []"
    using arg_cong [OF dj, of "drop m"] by (simp add: h2_def drop_map m_def)
  have mt: "map aparar_linha t = replicate (j + (k - j)) []"
    by (simp add: t_def mh2 replicate_add aparar_linha_def)
  have lt: "k \<le> length t" using lh by (simp add: t_def h2_def)
  have bt: "\<forall>x\<in>set t. \<forall>c\<in>set x. em_branco c"
  proof
    fix x assume "x \<in> set t"
    then have "aparar_linha x \<in> set (map aparar_linha t)" by simp
    then have "aparar_linha x = []" unfolding mt by simp
    then show "\<forall>c\<in>set x. em_branco c" by (simp add: aparar_linha_vazia)
  qed
  have hp: "h @ replicate (m + k - length h) [] = h1 @ t"
    using lh by (simp add: t_def h12)
  have eb: "escrever_bloco dados (m + 1) h =
              h1 @ map2 sobrepor dados (take k t) @ drop k t"
    unfolding escrever_bloco_def Let_def
    using lh1 by (simp add: hp k_def [symmetric])
  have ltk: "length dados = length (take k t)" using lt by (simp add: k_def)
  have btk: "\<forall>x\<in>set (take k t). \<forall>c\<in>set x. em_branco c"
    using bt by (auto dest: in_set_takeD)
  have mid: "map aparar_linha (map2 sobrepor dados (take k t)) = map aparar_linha dados"
    using ltk btk by (rule map2_sobrepor_em_branco)
  have fim: "map aparar_linha (drop k t) = replicate (j + (k - j) - k) []"
    using arg_cong [OF mt, of "drop k"] by (simp add: drop_map)
  have "map aparar_linha (escrever_bloco dados (m + 1) h) =
          (V @ map aparar_linha dados) @ replicate (j + (k - j) - k) []"
    unfolding eb using mh1 mid fim by simp
  then have "valores_api (escrever_bloco dados (m + 1) h) =
          aparar_fim (V @ map aparar_linha dados)"
    unfolding valores_api_def by (simp only: aparar_fim_replicate)
  then show ?thesis by (simp add: m_def V_def)
qed

lemma valores_api_acrescenta:
  assumes "\<forall>d\<in>set dados. aparar_linha d \<noteq> []"
  shows "valores_api (escrever_bloco dados (length (valores_api h) + 1) h) =
           valores_api h @ map aparar_linha dados"
proof -
  have "valores_api h @ map aparar_linha dados = [] \<or>
        last (valores_api h @ map aparar_linha dados) \<noteq> []"
  proof (cases "dados = []")
    case True
    then show ?thesis using valores_api_ultimo [of h] by simp
  next
    case False
    then have "last (map aparar_linha dados) \<in> set (map aparar_linha dados)"
      by (intro last_in_set) simp
    then have "last (map aparar_linha dados) \<noteq> []" using assms by auto
    with False show ?thesis by simp
  qed
  then have "aparar_fim (valores_api h @ map aparar_linha dados) =
             valores_api h @ map aparar_linha dados"
    by (rule aparar_fim_id)
  then show ?thesis by (simp only: valores_api_escrever_bloco)
qed

lemma aparar_linha_historico:
  "aparar_linha (linha_historico agora row) \<noteq> [] \<and>
   hd (aparar_linha (linha_historico agora row)) = Texto (Hash row) \<and>
   (agora \<noteq> [] \<longrightarrow> aparar_linha (linha_historico agora row) = linha_historico agora row)"
  by (simp add: aparar_linha_def linha_historico_def em_branco_def)

section \<open>The worksheet Historico when no call fails\<close>

lemma worksheet_historico_ok:
  "rede s = [] \<Longrightarrow> worksheet_historico s =
     (case aba_historico s of None \<Rightarrow> Inl WorksheetNotFound | Some _ \<Rightarrow> Inr (), s)"
  by (simp add: worksheet_historico_def seq_def chamada_ok)

lemma historico_get_all_values_ok:
  "rede s = [] \<Longrightarrow> aba_historico s = Some h \<Longrightarrow>
     historico_get_all_values s = (Inr (valores_api h), s)"
  by (simp add: historico_get_all_values_def seq_def chamada_ok)

lemma historico_update_ok:
  "rede s = [] \<Longrightarrow> aba_historico s = Some h \<Longrightarrow>
     historico_update dados n s = (Inr (), s\<lparr>aba_historico := Some (escrever_bloco dados n h)\<rparr>)"
  by (simp add: historico_update_def seq_def chamada_ok)

lemma escrever_cabecalho: "escrever_bloco [CABECALHO] (Suc 0) [] = [CABECALHO]"
  by (simp add: escrever_bloco_def sobrepor_def)

lemma criar_aba_historico_ok:
  assumes "rede s = []" "aba_historico s = None"
  shows "criar_aba_historico s = (Inr (), s\<lparr>aba_historico := Some [CABECALHO]\<rparr>)"
proof -
  have a: "add_worksheet_historico s = (Inr (), s\<lparr>aba_historico := Some []\<rparr>)"
    using assms by (simp add: add_worksheet_historico_def seq_def chamada_ok)
  have b: "historico_update [CABECALHO] (Suc 0) (s\<lparr>aba_historico := Some []\<rparr>) =
             (Inr (), s\<lparr>aba_historico := Some [CABECALHO]\<rparr>)"
    using assms(1)
      historico_update_ok [of "s\<lparr>aba_historico := Some []\<rparr>" "[]" "[CABECALHO]" "Suc 0"]
    by (simp add: escrever_cabecalho)
  show ?thesis by (simp add: criar_aba_historico_def seq_def a b)
qed

lemma get_transacoes_existentes_ausente:
  assumes "rede s = []" "aba_historico s = None"
  shows "get_transacoes_existentes s = (Inr {}, s\<lparr>aba_historico := Some [CABECALHO]\<rparr>)"
  using assms
  by (simp add: get_transacoes_existentes_def worksheet_historico_ok seq_def
      criar_aba_historico_ok)

lemma get_transacoes_existentes_presente:
  assumes "rede s = []" "aba_historico s = Some h"
  shows "get_transacoes_existentes s =
     (Inr (if Texto ''Hash'' \<notin> set (colunas_df (valores_api h)) then {}
           else set (coluna_dropna (Texto ''Hash'') (valores_api h))), s)"
  using assms
  by (simp add: get_transacoes_existentes_def worksheet_historico_ok
      historico_get_all_values_ok)


lemma atualizar_historico_ok:
  assumes "rede s = []" "aba_historico s = Some h"
  shows "atualizar_historico agora df s =
     (Inr (), s\<lparr>aba_historico :=
        Some (escrever_bloco (map (linha_historico agora) df) (length (valores_api h) + 1) h)\<rparr>)"
  using assms
  by (simp add: atualizar_historico_def seq_def worksheet_historico_ok
      historico_get_all_values_ok historico_update_ok)

section \<open>Insertion into a section\<close>

text \<open>
  Whatever the batch and the section, \<open>_inserir_generico\<close> leaves the worksheet
  \<open>Historico\<close> alone and changes no cell outside the column of the section and the rows
  \<open>inicio\<close> to \<open>fim\<close>. When no remote call fails it raises nothing, also when records are
  left over: from the row \<open>l\<close> that \<open>_encontrar_proxima_linha_vazia\<close> returned it writes the
  descriptions of the records one per row, in order, and stops after the row \<open>fim\<close>; when
  that function returned \<open>None\<close> (or the row 0) it writes nothing.
\<close>

lemma inserir_generico_quadro:
  assumes "inserir_generico df col inicio fim s = (r, s')"
  shows "aba_historico s' = aba_historico s \<and>
         (\<forall>c k. (c \<noteq> col \<or> k < inicio \<or> fim < k) \<longrightarrow> aba_mes s' c k = aba_mes s c k) \<and>
         (rede s = [] \<longrightarrow> r = Inr () \<and>
            (\<exists>linha. fst (encontrar_proxima_linha_vazia col inicio fim s) = Inr linha \<and>
               (\<forall>k. aba_mes s' col k =
                  (case linha of
                     None \<Rightarrow> aba_mes s col k
                   | Some l \<Rightarrow>
                       if l \<noteq> 0 \<and> l \<le> k \<and> k \<le> fim \<and> k < l + length df
                       then Texto (take 50 (Descricao (df ! (k - l))))
                       else aba_mes s col k))))"
proof -
  obtain r0 s0 where e: "encontrar_proxima_linha_vazia col inicio fim s = (r0, s0)"
    by (cases "encontrar_proxima_linha_vazia col inicio fim s")
  note ec = encontrar_casos [OF e]
  have m0: "aba_mes s0 = aba_mes s" and h0: "aba_historico s0 = aba_historico s"
    using ec by simp_all
  show ?thesis
  proof (cases r0)
    case (Inl err)
    with assms e have "r = Inl err" "s' = s0" by (simp_all add: inserir_generico_def seq_def)
    with ec Inl m0 h0 show ?thesis by auto
  next
    case (Inr linha)
    show ?thesis
    proof (cases linha)
      case None
      with assms e Inr have "r = Inr ()" "s' = s0" by (simp_all add: inserir_generico_def seq_def)
      with e Inr None m0 h0 show ?thesis by simp
    next
      case (Some l)
      from ec Inr Some have il: "inicio \<le> l" by simp
      show ?thesis
      proof (cases "l \<noteq> 0 \<and> l \<le> fim")
        case True
        with assms e Inr Some have lp: "inserir_loop df col l fim s0 = (r, s')"
          by (simp add: inserir_generico_def seq_def)
        note q = inserir_loop_quadro [OF lp]
        have f1: "aba_historico s' = aba_historico s" using q h0 by simp
        have f2: "aba_mes s' c k = aba_mes s c k" if "c \<noteq> col \<or> k < inicio \<or> fim < k" for c k
        proof -
          from that il have "c \<noteq> col \<or> k < l \<or> fim < k" by auto
          with q have "aba_mes s' c k = aba_mes s0 c k" by simp
          with m0 show ?thesis by simp
        qed
        have f3: "r = Inr () \<and>
            (\<exists>linha. fst (encontrar_proxima_linha_vazia col inicio fim s) = Inr linha \<and>
               (\<forall>k. aba_mes s' col k =
                  (case linha of
                     None \<Rightarrow> aba_mes s col k
                   | Some l \<Rightarrow>
                       if l \<noteq> 0 \<and> l \<le> k \<and> k \<le> fim \<and> k < l + length df
                       then Texto (take 50 (Descricao (df ! (k - l))))
                       else aba_mes s col k)))" if rd: "rede s = []"
        proof -
          from ec rd have "rede s0 = []" by simp
          note sf = inserir_loop_sem_falha [OF this lp]
          have "aba_mes s' col k =
                  (if l \<noteq> 0 \<and> l \<le> k \<and> k \<le> fim \<and> k < l + length df
                       then Texto (take 50 (Descricao (df ! (k - l))))
                       else aba_mes s col k)" for k
            using sf True m0 by simp
          with sf e Inr Some show ?thesis by simp
        qed
        from f1 f2 f3 show ?thesis by simp
      next
        case False
        with assms e Inr Some have rs: "r = Inr ()" "s' = s0"
          by (auto simp: inserir_generico_def seq_def)
        have nk: "(if l \<noteq> 0 \<and> l \<le> k \<and> k \<le> fim \<and> k < l + length df
                   then Texto (take 50 (Descricao (df ! (k - l))))
                   else aba_mes s col k) = aba_mes s col k" for k
          using False by auto
        have "fst (encontrar_proxima_linha_vazia col inicio fim s) = Inr (Some l)"
          using e Inr Some by simp
        then have "\<exists>linha. fst (encontrar_proxima_linha_vazia col inicio fim s) = Inr linha \<and>
               (\<forall>k. aba_mes s' col k =
                  (case linha of
                     None \<Rightarrow> aba_mes s col k
                   | Some l \<Rightarrow>
                       if l \<noteq> 0 \<and> l \<le> k \<and> k \<le> fim \<and> k < l + length df
                       then Texto (take 50 (Descricao (df ! (k - l))))
                       else aba_mes s col k))"
          using rs m0 False by (intro exI [of _ "Some l"]) auto
        with rs m0 h0 show ?thesis by simp
      qed
    qed
  qed
qed

lemma encontrar_proxima_linha_vazia_ok:
  assumes "rede s = []"
  shows "encontrar_proxima_linha_vazia col i f s =
     (Inr (if valores_api (map (\<lambda>linha. [aba_mes s col linha]) [i..<Suc f]) = [] then Some i
           else primeira_vazia (valores_api (map (\<lambda>linha. [aba_mes s col linha]) [i..<Suc f])) i),
      s)"
  using assms by (simp add: encontrar_proxima_linha_vazia_def aba_mes_get_def seq_def chamada_ok)

lemma inserir_generico_secao_cheia:
  assumes "rede s = []" and "fst (encontrar_proxima_linha_vazia col i f s) = Inr None"
  shows "inserir_generico df col i f s = (Inr (), s)"
proof -
  have "snd (encontrar_proxima_linha_vazia col i f s) = s"
    by (simp add: encontrar_proxima_linha_vazia_ok [OF assms(1)])
  with assms(2) have "encontrar_proxima_linha_vazia col i f s = (Inr None, s)"
    by (simp add: prod_eq_iff)
  then show ?thesis by (simp add: inserir_generico_def seq_def)
qed

text \<open>
  C3. The frame of \<open>_inserir_generico\<close> holds, but the start row is not the next free row.
  In the range B10:B14 with the rows 10 to 12 occupied and the rows 13 and 14 blank, a batch
  of two records is dropped: the function returns normally and leaves the spreadsheet as it
  was, the two free rows included. (On a blank range the same batch goes to the rows 10 and
  11, and with the rows 10 and 12 occupied it goes to the rows 11 and 12.)
\<close>

theorem c3_linhas_livres_nao_usadas:
  "inserir_generico [uber_trip, padaria] ''B'' 10 14 (planilha_com [10, 11, 12]) =
     (Inr (), planilha_com [10, 11, 12]) \<and>
   aba_mes (planilha_com [10, 11, 12]) ''B'' 13 = Texto [] \<and>
   aba_mes (planilha_com [10, 11, 12]) ''B'' 14 = Texto [] \<and>
   aba_mes (snd (inserir_generico [uber_trip, padaria] ''B'' 10 14 (planilha_com [])))
     ''B'' 10 = Texto ''UBER *TRIP'' \<and>
   aba_mes (snd (inserir_generico [uber_trip, padaria] ''B'' 10 14 (planilha_com [])))
     ''B'' 11 = Texto ''Padaria Central'' \<and>
   aba_mes (snd (inserir_generico [uber_trip, padaria] ''B'' 10 14 (planilha_com [10, 12])))
     ''B'' 11 = Texto ''UBER *TRIP'' \<and>
   aba_mes (snd (inserir_generico [uber_trip, padaria] ''B'' 10 14 (planilha_com [10, 12])))
     ''B'' 12 = Texto ''Padaria Central''"
proof -
  have r: "rede (planilha_com [10, 11, 12]) = []" by (simp add: planilha_com_def)
  have n: "fst (encontrar_proxima_linha_vazia ''B'' 10 14 (planilha_com [10, 11, 12])) = Inr None"
    by code_simp
  have a: "inserir_generico [uber_trip, padaria] ''B'' 10 14 (planilha_com [10, 11, 12]) =
     (Inr (), planilha_com [10, 11, 12])"
    using r n by (rule inserir_generico_secao_cheia)
  have b: "aba_mes (planilha_com [10, 11, 12]) ''B'' 13 = Texto []"
    by (simp add: planilha_com_def)
  have c: "aba_mes (planilha_com [10, 11, 12]) ''B'' 14 = Texto []"
    by (simp add: planilha_com_def)
  have d: "aba_mes (snd (inserir_generico [uber_trip, padaria] ''B'' 10 14 (planilha_com [])))
     ''B'' 10 = Texto ''UBER *TRIP''"
    by code_simp
  have e: "aba_mes (snd (inserir_generico [uber_trip, padaria] ''B'' 10 14 (planilha_com [])))
     ''B'' 11 = Texto ''Padaria Central''"
    by code_simp
  have f: "aba_mes (snd (inserir_generico [uber_trip, padaria] ''B'' 10 14
     (planilha_com [10, 12]))) ''B'' 11 = Texto ''UBER *TRIP''"
    by code_simp
  have g: "aba_mes (snd (inserir_generico [uber_trip, padaria] ''B'' 10 14
     (planilha_com [10, 12]))) ''B'' 12 = Texto ''Padaria Central''"
    by code_simp
  from a b c d e f g show ?thesis by (intro conjI)
qed

text \<open>
  C4. The next free row. With the rows 10 to 12 of a range of five occupied and the rows 13
  and 14 blank, the API returns three rows, the loop finds none of them empty, and the
  function returns \<open>None\<close>, as it does when all five rows are occupied; it returns the first
  row when the range is blank, and the gap when an occupied row follows a blank one.
\<close>

theorem c4_proxima_linha_vazia:
  "fst (encontrar_proxima_linha_vazia ''B'' 10 14 (planilha_com [10, 11, 12])) = Inr None \<and>
   fst (encontrar_proxima_linha_vazia ''B'' 10 14 (planilha_com [10, 11, 12, 13, 14])) = Inr None \<and>
   fst (encontrar_proxima_linha_vazia ''B'' 10 14 (planilha_com [])) = Inr (Some 10) \<and>
   fst (encontrar_proxima_linha_vazia ''B'' 10 14 (planilha_com [10, 12])) = Inr (Some 11)"
proof -
  have a: "fst (encontrar_proxima_linha_vazia ''B'' 10 14 (planilha_com [10, 11, 12])) = Inr None"
    by code_simp
  have b: "fst (encontrar_proxima_linha_vazia ''B'' 10 14 (planilha_com [10, 11, 12, 13, 14]))
             = Inr None"
    by code_simp
  have c: "fst (encontrar_proxima_linha_vazia ''B'' 10 14 (planilha_com [])) = Inr (Some 10)"
    by code_simp
  have d: "fst (encontrar_proxima_linha_vazia ''B'' 10 14 (planilha_com [10, 12])) = Inr (Some 11)"
    by code_simp
  from a b c d show ?thesis by simp
qed

section \<open>The end-to-end example\<close>

text \<open>
  C10. The record of 05/01/2024, "UBER *TRIP", -23.50: when the amount renders as "-23.5", its
  hash is the MD5 digest of "05/01/2024|UBER *TRIP|-23.5"; it is classified "Transporte",
  "Despesa", not fixed; the payment method is "Pix" by the default branch, since the
  description contains neither "pix" nor "cartao" nor "credito".
\<close>

theorem c10_uber_trip:
  assumes "str_valor (Float64 (- 23.5)) = ''-23.5''"
  shows "gerar_hash_transacao md5 str_valor uber_trip = md5 ''05/01/2024|UBER *TRIP|-23.5'' \<and>
         categorizar (Descricao uber_trip) (numero (Valor uber_trip)) = (''Transporte'', ''Despesa'', False) \<and>
         identificar_forma_pagamento (Descricao uber_trip) = ''Pix'' \<and>
         \<not> sublist ''pix'' (lower (Descricao uber_trip)) \<and>
         \<not> sublist ''cartao'' (lower (Descricao uber_trip)) \<and>
         \<not> sublist ''credito'' (lower (Descricao uber_trip)) \<and>
         classificar_linha (com_hash md5 str_valor uber_trip) =
           \<lparr>Data = ''05/01/2024'', Descricao = ''UBER *TRIP'', Valor = Float64 (- 23.5),
            Hash = md5 ''05/01/2024|UBER *TRIP|-23.5'', Categoria = ''Transporte'',
            Tipo = ''Despesa'', EhFixo = False, Forma = ''Pix''\<rparr>"
proof -
  have h: "gerar_hash_transacao md5 str_valor uber_trip = md5 ''05/01/2024|UBER *TRIP|-23.5''"
    using assms by (simp add: gerar_hash_transacao_def texto_hash_def uber_trip_def)
  have c: "categorizar ''UBER *TRIP'' (- 23.5) = (''Transporte'', ''Despesa'', False)"
    by code_simp
  have p: "identificar_forma_pagamento ''UBER *TRIP'' = ''Pix''" by code_simp
  have n1: "\<not> sublist ''pix'' (lower ''UBER *TRIP'')" by code_simp
  have n2: "\<not> sublist ''cartao'' (lower ''UBER *TRIP'')" by code_simp
  have n3: "\<not> sublist ''credito'' (lower ''UBER *TRIP'')" by code_simp
  have d: "Descricao uber_trip = ''UBER *TRIP''" "Valor uber_trip = Float64 (- 23.5)"
    "numero (Float64 (- 23.5)) = - 23.5"
    "Data uber_trip = ''05/01/2024''"
    by (simp_all add: uber_trip_def numero_def)
  have k: "classificar_linha (com_hash md5 str_valor uber_trip) =
           \<lparr>Data = ''05/01/2024'', Descricao = ''UBER *TRIP'', Valor = Float64 (- 23.5),
            Hash = md5 ''05/01/2024|UBER *TRIP|-23.5'', Categoria = ''Transporte'',
            Tipo = ''Despesa'', EhFixo = False, Forma = ''Pix''\<rparr>"
    using h c p by (simp add: classificar_linha_def com_hash_def d numero_def)
  from h c p n1 n2 n3 k show ?thesis by (simp add: d numero_def)
qed

theorem c10_uber_trip_witness:
  "(\<lambda>v. ''-23.5'') (Float64 (- 23.5)) = ''-23.5'' \<and>
   gerar_hash_transacao (\<lambda>t. t) (\<lambda>v. ''-23.5'') uber_trip = ''05/01/2024|UBER *TRIP|-23.5'' \<and>
   categorizar (Descricao uber_trip) (numero (Valor uber_trip)) = (''Transporte'', ''Despesa'', False) \<and>
   identificar_forma_pagamento (Descricao uber_trip) = ''Pix''"
proof -
  have a: "(\<lambda>v. ''-23.5'') (Float64 (- 23.5)) = ''-23.5''" by simp
  note t = c10_uber_trip [of "\<lambda>v. ''-23.5''" "\<lambda>t. t", OF a]
  have "gerar_hash_transacao (\<lambda>t. t) (\<lambda>v. ''-23.5'') uber_trip = ''05/01/2024|UBER *TRIP|-23.5''"
    using conjunct1 [OF t] by simp
  moreover have "categorizar (Descricao uber_trip) (numero (Valor uber_trip)) =
      (''Transporte'', ''Despesa'', False)"
    by (rule conjunct1 [OF conjunct2 [OF t]])
  moreover have "identificar_forma_pagamento (Descricao uber_trip) = ''Pix''"
    by (rule conjunct1 [OF conjunct2 [OF conjunct2 [OF t]]])
  ultimately show ?thesis by simp
qed

section \<open>Reading the hashes already imported\<close>

lemma chamada_falha: "rede s = False # resto \<Longrightarrow> chamada s = (Inl APIError, s\<lparr>rede := resto\<rparr>)"
  by (simp add: chamada_def)

lemma chamada_sucesso: "rede s = True # resto \<Longrightarrow> chamada s = (Inr (), s\<lparr>rede := resto\<rparr>)"
  by (simp add: chamada_def)

lemma get_transacoes_existentes_falha:
  assumes "rede s = replicate i True @ False # resto"
    and "i < (case aba_historico s of None \<Rightarrow> 3 | Some _ \<Rightarrow> 2)"
  shows "fst (get_transacoes_existentes s) = Inl APIError"
proof (cases "aba_historico s")
  case None
  with assms(2) have "i = 0 \<or> i = Suc 0 \<or> i = Suc (Suc 0)" by auto
  then show ?thesis
  proof (elim disjE)
    assume "i = 0"
    with assms(1) have "rede s = False # resto" by simp
    then show ?thesis
      by (simp add: get_transacoes_existentes_def worksheet_historico_def seq_def chamada_falha)
  next
    assume "i = Suc 0"
    with assms(1) have r: "rede s = True # False # resto" by simp
    show ?thesis using None
      by (simp add: get_transacoes_existentes_def worksheet_historico_def seq_def
          chamada_sucesso [OF r] criar_aba_historico_def add_worksheet_historico_def
          chamada_falha)
  next
    assume "i = Suc (Suc 0)"
    with assms(1) have r: "rede s = True # True # False # resto" by simp
    show ?thesis using None
      by (simp add: get_transacoes_existentes_def worksheet_historico_def seq_def
          chamada_sucesso [OF r] criar_aba_historico_def add_worksheet_historico_def
          chamada_sucesso historico_update_def chamada_falha)
  qed
next
  case (Some h)
  with assms(2) have "i = 0 \<or> i = Suc 0" by auto
  then show ?thesis
  proof (elim disjE)
    assume "i = 0"
    with assms(1) have "rede s = False # resto" by simp
    then show ?thesis
      by (simp add: get_transacoes_existentes_def worksheet_historico_def seq_def chamada_falha)
  next
    assume "i = Suc 0"
    with assms(1) have r: "rede s = True # False # resto" by simp
    show ?thesis using Some
      by (simp add: get_transacoes_existentes_def worksheet_historico_def seq_def
          chamada_sucesso [OF r] historico_get_all_values_def chamada_falha)
  qed
qed

text \<open>
  C6, as the code has it. When the worksheet \<open>Historico\<close> does not exist and no call fails,
  \<open>_get_transacoes_existentes\<close> creates it with the header Hash, Data, Descricao, Valor,
  Data_Importacao and returns the empty set. A call that fails in transport (one of the
  three calls made when the worksheet is missing, of the two made when it exists) raises
  in the caller. But a worksheet that exists and whose first row has no cell "Hash" gives
  the empty set without any error.
\<close>

theorem c6_get_transacoes_existentes:
  "(rede s = [] \<and> aba_historico s = None \<longrightarrow>
      get_transacoes_existentes s = (Inr {}, s\<lparr>aba_historico := Some [CABECALHO]\<rparr>)) \<and>
   (rede s = replicate i True @ False # resto \<and>
    i < (case aba_historico s of None \<Rightarrow> 3 | Some _ \<Rightarrow> 2) \<longrightarrow>
      fst (get_transacoes_existentes s) = Inl APIError) \<and>
   (rede s = [] \<and> aba_historico s = Some h \<and>
    Texto ''Hash'' \<notin> set (colunas_df (valores_api h)) \<longrightarrow>
      get_transacoes_existentes s = (Inr {}, s))"
proof (intro conjI impI)
  assume "rede s = [] \<and> aba_historico s = None"
  then show "get_transacoes_existentes s = (Inr {}, s\<lparr>aba_historico := Some [CABECALHO]\<rparr>)"
    by (simp add: get_transacoes_existentes_ausente)
next
  assume "rede s = replicate i True @ False # resto \<and>
    i < (case aba_historico s of None \<Rightarrow> 3 | Some _ \<Rightarrow> 2)"
  then show "fst (get_transacoes_existentes s) = Inl APIError"
    using get_transacoes_existentes_falha [of s i resto] by simp
next
  assume "rede s = [] \<and> aba_historico s = Some h \<and>
    Texto ''Hash'' \<notin> set (colunas_df (valores_api h))"
  then show "get_transacoes_existentes s = (Inr {}, s)"
    by (simp add: get_transacoes_existentes_presente)
qed

theorem c6_get_transacoes_existentes_witness:
  "rede planilha_vazia = [] \<and> aba_historico planilha_vazia = None \<and>
   get_transacoes_existentes planilha_vazia =
     (Inr {}, planilha_vazia\<lparr>aba_historico := Some [CABECALHO]\<rparr>)"
proof -
  have a: "rede planilha_vazia = [] \<and> aba_historico planilha_vazia = None"
    by (simp add: planilha_vazia_def)
  note t = c6_get_transacoes_existentes [of planilha_vazia 0 "[]" "[]"]
  from mp [OF conjunct1 [OF t] a] a show ?thesis by simp
qed

text \<open>
  C6 as the spec words it fails: a worksheet that exists with the first row "hash", "Data"
  and a data row is malformed (no column named Hash), and the answer is the empty set, not
  an error.
\<close>

theorem c6_counterexample:
  "aba_historico (planilha_vazia\<lparr>aba_historico :=
      Some [[Texto ''hash'', Texto ''Data''], [Texto ''abc'', Texto ''05/01/2024'']]\<rparr>) \<noteq> None \<and>
   fst (get_transacoes_existentes (planilha_vazia\<lparr>aba_historico :=
      Some [[Texto ''hash'', Texto ''Data''], [Texto ''abc'', Texto ''05/01/2024'']]\<rparr>)) = Inr {}"
proof -
  let ?h = "[[Texto ''hash'', Texto ''Data''], [Texto ''abc'', Texto ''05/01/2024'']]"
  let ?s = "planilha_vazia\<lparr>aba_historico := Some ?h\<rparr>"
  have r: "rede ?s = []" by (simp add: planilha_vazia_def)
  have h: "aba_historico ?s = Some ?h" by simp
  have v: "valores_api ?h = ?h"
    by (simp add: valores_api_def aparar_fim_def aparar_linha_def em_branco_def)
  have "get_transacoes_existentes ?s =
     (Inr (if Texto ''Hash'' \<notin> set (colunas_df (valores_api ?h)) then {}
           else set (coluna_dropna (Texto ''Hash'') (valores_api ?h))), ?s)"
    using r h by (rule get_transacoes_existentes_presente)
  then have "fst (get_transacoes_existentes ?s) = Inr {}"
    by (simp add: v colunas_df_def)
  then show ?thesis by simp
qed

section \<open>Failures during an import\<close>

lemma passou_refl: "passou xs xs"
  by (cases xs) simp_all

lemma passou_trans: "passou xs ys \<Longrightarrow> passou ys zs \<Longrightarrow> passou xs zs"
  by (induction xs) auto

lemma passou_falhou: "passou xs ys \<Longrightarrow> falhou ys zs \<Longrightarrow> falhou xs zs"
  by (induction xs) auto



lemma falhou_replicate: "falhou (replicate i True @ False # resto) ys \<longleftrightarrow> ys = resto"
  by (induction i) auto

lemma resultado_rede_chamada: "chamada s = (r, s') \<Longrightarrow> resultado_rede r (rede s) (rede s')"
  by (cases "rede s") (auto simp: chamada_def resultado_rede_def passou_refl split: if_splits)

lemma resultado_rede_seq:
  assumes m: "\<And>s r s'. m s = (r, s') \<Longrightarrow> resultado_rede r (rede s) (rede s')"
    and f: "\<And>x s r s'. f x s = (r, s') \<Longrightarrow> resultado_rede r (rede s) (rede s')"
    and e: "seq m f s = (r, s')"
  shows "resultado_rede r (rede s) (rede s')"
proof (cases "m s")
  case (Pair r0 s0)
  note a = m [OF Pair]
  show ?thesis
  proof (cases r0)
    case (Inl err)
    with Pair e have "r = Inl err" "s' = s0" by (simp_all add: seq_def)
    with a Inl show ?thesis by (simp add: resultado_rede_def)
  next
    case (Inr x)
    with Pair e have "f x s0 = (r, s')" by (simp add: seq_def)
    note b = f [OF this]
    from a Inr have p: "passou (rede s) (rede s0)" by (simp add: resultado_rede_def)
    show ?thesis
    proof (cases r)
      case (Inl err)
      with b have "err = APIError" "falhou (rede s0) (rede s')"
        by (simp_all add: resultado_rede_def)
      with passou_falhou [OF p] Inl show ?thesis by (simp add: resultado_rede_def)
    next
      case (Inr y)
      with b have "passou (rede s0) (rede s')" by (simp add: resultado_rede_def)
      with passou_trans [OF p] Inr show ?thesis by (simp add: resultado_rede_def)
    qed
  qed
qed

lemma resultado_rede_puro:
  "rede (g s) = rede s \<Longrightarrow> resultado_rede (Inr x) (rede s) (rede (g s))"
  by (simp add: resultado_rede_def passou_refl)

lemma resultado_rede_aba_mes_get:
  assumes "aba_mes_get col i f s = (r, s')"
  shows "resultado_rede r (rede s) (rede s')"
  using _ _ assms [unfolded aba_mes_get_def]
proof (rule resultado_rede_seq)
  show "\<And>s r s'. chamada s = (r, s') \<Longrightarrow> resultado_rede r (rede s) (rede s')"
    by (rule resultado_rede_chamada)
  show "\<And>x s r s'. (Inr (valores_api (map (\<lambda>linha. [aba_mes s col linha]) [i..<Suc f])), s) = (r, s')
      \<Longrightarrow> resultado_rede r (rede s) (rede s')"
    by (auto simp: resultado_rede_def passou_refl)
qed

lemma resultado_rede_update_aba_mes:
  assumes "update_aba_mes v col l s = (r, s')"
  shows "resultado_rede r (rede s) (rede s')"
  using _ _ assms [unfolded update_aba_mes_def]
proof (rule resultado_rede_seq)
  show "\<And>s r s'. chamada s = (r, s') \<Longrightarrow> resultado_rede r (rede s) (rede s')"
    by (rule resultado_rede_chamada)
  show "\<And>x s r s'. (Inr (), s\<lparr>aba_mes := (aba_mes s)(col := (aba_mes s col)(l := Texto v))\<rparr>) = (r, s')
      \<Longrightarrow> resultado_rede r (rede s) (rede s')"
    by (auto simp: resultado_rede_def passou_refl)
qed

lemma resultado_rede_encontrar:
  assumes "encontrar_proxima_linha_vazia col i f s = (r, s')"
  shows "resultado_rede r (rede s) (rede s')"
  using _ _ assms [unfolded encontrar_proxima_linha_vazia_def]
proof (rule resultado_rede_seq)
  show "\<And>s r s'. aba_mes_get col i f s = (r, s') \<Longrightarrow> resultado_rede r (rede s) (rede s')"
    by (rule resultado_rede_aba_mes_get)
  show "\<And>x s r s'. (Inr (if x = [] then Some i else primeira_vazia x i), s) = (r, s')
      \<Longrightarrow> resultado_rede r (rede s) (rede s')"
    by (auto simp: resultado_rede_def passou_refl)
qed

lemma resultado_rede_inserir_loop:
  "inserir_loop df col l f s = (r, s') \<Longrightarrow> resultado_rede r (rede s) (rede s')"
proof (induction df arbitrary: l s)
  case Nil
  then show ?case by (auto simp: resultado_rede_def passou_refl)
next
  case (Cons row resto)
  show ?case
  proof (cases "l > f")
    case True
    with Cons.prems show ?thesis by (auto simp: resultado_rede_def passou_refl)
  next
    case False
    obtain r1 s1 where u: "update_aba_mes (take 50 (Descricao row)) col l s = (r1, s1)"
      by (cases "update_aba_mes (take 50 (Descricao row)) col l s")
    note a = resultado_rede_update_aba_mes [OF u]
    show ?thesis
    proof (cases r1)
      case (Inl e)
      with Cons.prems False u have "r = Inl e" "s' = s1" by simp_all
      with a Inl show ?thesis by simp
    next
      case (Inr x)
      with Cons.prems False u have "inserir_loop resto col (l + 1) f s1 = (r, s')" by simp
      note b = Cons.IH [OF this]
      from a Inr have p: "passou (rede s) (rede s1)" by (simp add: resultado_rede_def)
      show ?thesis
      proof (cases r)
        case (Inl err)
        with b have "err = APIError" "falhou (rede s1) (rede s')"
          by (simp_all add: resultado_rede_def)
        with passou_falhou [OF p] Inl show ?thesis by (simp add: resultado_rede_def)
      next
        case (Inr y)
        with b have "passou (rede s1) (rede s')" by (simp add: resultado_rede_def)
        with passou_trans [OF p] Inr show ?thesis by (simp add: resultado_rede_def)
      qed
    qed
  qed
qed

lemma resultado_rede_inserir_generico:
  assumes "inserir_generico df col i f s = (r, s')"
  shows "resultado_rede r (rede s) (rede s')"
  using _ _ assms [unfolded inserir_generico_def]
proof (rule resultado_rede_seq)
  show "\<And>s r s'. encontrar_proxima_linha_vazia col i f s = (r, s') \<Longrightarrow>
      resultado_rede r (rede s) (rede s')"
    by (rule resultado_rede_encontrar)
  show "\<And>x s r s'. (case x of None \<Rightarrow> (\<lambda>s. (Inr (), s))
       | Some l \<Rightarrow> (if l \<noteq> 0 \<and> l \<le> f then inserir_loop df col l f else (\<lambda>s. (Inr (), s)))) s
        = (r, s') \<Longrightarrow> resultado_rede r (rede s) (rede s')"
    by (auto simp: resultado_rede_def passou_refl split: option.splits if_splits
        dest: resultado_rede_inserir_loop)
qed








section \<open>The ledger after an import\<close>

lemma inserir_generico_sem_falha:
  assumes "rede s = []" and "inserir_generico df col i f s = (r, s')"
  shows "r = Inr () \<and> rede s' = [] \<and> aba_historico s' = aba_historico s"
proof -
  note q = inserir_generico_quadro [OF assms(2)]
  have "resultado_rede r (rede s) (rede s')" using assms(2) by (rule resultado_rede_inserir_generico)
  moreover have "r = Inr ()" using q assms(1) by simp
  ultimately have "rede s' = []" using assms(1) by (simp add: resultado_rede_def)
  with q \<open>r = Inr ()\<close> show ?thesis by simp
qed

lemma processar_insercoes_sem_falha:
  assumes "rede s = []"
  shows "\<exists>s'. processar_insercoes df s = (Inr (), s') \<and> rede s' = [] \<and>
               aba_historico s' = aba_historico s"
proof -
  let ?dfc = "map classificar_linha df"
  obtain r1 s1 where e1: "inserir_generico (filter (\<lambda>r. Tipo r = ''Receita'') ?dfc) ''B'' 10 19 s
      = (r1, s1)"
    by (cases "inserir_generico (filter (\<lambda>r. Tipo r = ''Receita'') ?dfc) ''B'' 10 19 s")
  note a1 = inserir_generico_sem_falha [OF assms e1]
  obtain r2 s2 where e2: "inserir_generico (filter (\<lambda>r. Tipo r = ''Despesa'' \<and> EhFixo r) ?dfc)
      ''H'' 17 26 s1 = (r2, s2)"
    by (cases "inserir_generico (filter (\<lambda>r. Tipo r = ''Despesa'' \<and> EhFixo r) ?dfc) ''H'' 17 26 s1")
  note a2 = inserir_generico_sem_falha [OF conjunct1 [OF conjunct2 [OF a1]] e2]
  obtain r3 s3 where e3: "inserir_generico (filter (\<lambda>r. Tipo r = ''Despesa'' \<and> \<not> EhFixo r) ?dfc)
      ''B'' 25 51 s2 = (r3, s3)"
    by (cases "inserir_generico (filter (\<lambda>r. Tipo r = ''Despesa'' \<and> \<not> EhFixo r) ?dfc) ''B'' 25 51 s2")
  note a3 = inserir_generico_sem_falha [OF conjunct1 [OF conjunct2 [OF a2]] e3]
  have "processar_insercoes df s = (Inr (), s3)"
    using e1 e2 e3 a1 a2 a3
    by (simp add: processar_insercoes_def Let_def seq_def inserir_entradas_def
        inserir_gastos_fixos_def inserir_gastos_variaveis_def)
  with a1 a2 a3 show ?thesis by simp
qed

lemma valores_api_cabecalho: "valores_api [CABECALHO] = [CABECALHO]"
  by (simp add: valores_api_def aparar_fim_def aparar_linha_def CABECALHO_def em_branco_def)

lemma get_transacoes_existentes_ok:
  assumes "rede s = []"
  shows "get_transacoes_existentes s =
     (Inr (case aba_historico s of
             None \<Rightarrow> {}
           | Some h \<Rightarrow> if Texto ''Hash'' \<notin> set (colunas_df (valores_api h)) then {}
                       else set (coluna_dropna (Texto ''Hash'') (valores_api h))),
      s\<lparr>aba_historico := Some (case aba_historico s of None \<Rightarrow> [CABECALHO] | Some h \<Rightarrow> h)\<rparr>)"
proof (cases "aba_historico s")
  case None
  with assms show ?thesis by (simp add: get_transacoes_existentes_ausente)
next
  case (Some h)
  then have "s\<lparr>aba_historico := Some h\<rparr> = s" by simp
  with assms Some show ?thesis by (simp add: get_transacoes_existentes_presente)
qed

lemma importar_sem_falha:
  fixes md5 :: "string \<Rightarrow> string" and sv :: "valor \<Rightarrow> string" and df :: "transacao list"
  assumes r: "rede s = []" and ag: "agora \<noteq> []"
  defines "h0 \<equiv> (case aba_historico s of None \<Rightarrow> [CABECALHO] | Some h \<Rightarrow> h)"
  defines "hs \<equiv> (case aba_historico s of
             None \<Rightarrow> {}
           | Some h \<Rightarrow> if Texto ''Hash'' \<notin> set (colunas_df (valores_api h)) then {}
                       else set (coluna_dropna (Texto ''Hash'') (valores_api h)))"
  defines "df_novas \<equiv> filter (\<lambda>row. Texto (Hash row) \<notin> hs) (map (com_hash md5 sv) df)"
  shows "fst (importar_transacoes md5 sv agora df s) = Inr () \<and>
         rede (snd (importar_transacoes md5 sv agora df s)) = [] \<and>
         (\<exists>h'. aba_historico (snd (importar_transacoes md5 sv agora df s)) = Some h' \<and>
                valores_api h' = valores_api h0 @ map (linha_historico agora) df_novas)"
proof -
  let ?s1 = "s\<lparr>aba_historico := Some h0\<rparr>"
  have g: "get_transacoes_existentes s = (Inr hs, ?s1)"
    unfolding hs_def h0_def using r by (rule get_transacoes_existentes_ok)
  have n: "novas hs (map (com_hash md5 sv) df) = df_novas"
    by (simp add: novas_def df_novas_def)
  show ?thesis
  proof (cases "df_novas = []")
    case True
    then have "importar_transacoes md5 sv agora df s = (Inr (), ?s1)"
      using g n by (simp add: importar_transacoes_def seq_def Let_def)
    with True r show ?thesis by simp
  next
    case False
    have r1: "rede ?s1 = []" using r by simp
    from processar_insercoes_sem_falha [OF r1, of df_novas] obtain s2
      where p: "processar_insercoes df_novas ?s1 = (Inr (), s2) \<and> rede s2 = [] \<and>
                aba_historico s2 = aba_historico ?s1" ..
    have h2: "aba_historico s2 = Some h0" using p by simp
    have r2: "rede s2 = []" using p by simp
    let ?h' = "escrever_bloco (map (linha_historico agora) df_novas) (length (valores_api h0) + 1) h0"
    have a: "atualizar_historico agora df_novas s2 = (Inr (), s2\<lparr>aba_historico := Some ?h'\<rparr>)"
      using r2 h2 by (rule atualizar_historico_ok)
    have i: "importar_transacoes md5 sv agora df s = (Inr (), s2\<lparr>aba_historico := Some ?h'\<rparr>)"
      using g n False p a by (simp add: importar_transacoes_def seq_def Let_def)
    have "\<forall>d\<in>set (map (linha_historico agora) df_novas). aparar_linha d \<noteq> []"
      using aparar_linha_historico by auto
    then have "valores_api ?h' =
        valores_api h0 @ map aparar_linha (map (linha_historico agora) df_novas)"
      by (rule valores_api_acrescenta)
    moreover have "map aparar_linha (map (linha_historico agora) df_novas) =
        map (linha_historico agora) df_novas"
      using aparar_linha_historico ag by simp
    ultimately have "valores_api ?h' = valores_api h0 @ map (linha_historico agora) df_novas"
      by simp
    with i r2 show ?thesis by simp
  qed
qed

lemma primeira_vazia_cheia:
  "\<forall>k\<in>set ks. \<not> em_branco (c k) \<Longrightarrow> primeira_vazia (map (\<lambda>k. [c k]) ks) n = None"
  by (induction ks arbitrary: n) (auto simp: em_branco_def)

lemma valores_api_cheia:
  assumes "\<forall>k\<in>set ks. \<not> em_branco (c k)"
  shows "valores_api (map (\<lambda>k. [c k]) ks) = map (\<lambda>k. [c k]) ks"
proof -
  have a: "map aparar_linha (map (\<lambda>k. [c k]) ks) = map (\<lambda>k. [c k]) ks"
    using assms by (simp add: aparar_linha_def)
  have "map (\<lambda>k. [c k]) ks = [] \<or> last (map (\<lambda>k. [c k]) ks) \<noteq> []"
    by (cases ks rule: rev_cases) simp_all
  then have "aparar_fim (map (\<lambda>k. [c k]) ks) = map (\<lambda>k. [c k]) ks" by (rule aparar_fim_id)
  with a show ?thesis by (simp only: valores_api_def)
qed

lemma encontrar_secao_cheia:
  assumes "rede s = []" and "i \<le> f"
    and "\<forall>k. i \<le> k \<and> k \<le> f \<longrightarrow> \<not> em_branco (aba_mes s col k)"
  shows "fst (encontrar_proxima_linha_vazia col i f s) = Inr None"
proof -
  have c: "\<forall>k\<in>set [i..<Suc f]. \<not> em_branco (aba_mes s col k)"
  proof
    fix k assume "k \<in> set [i..<Suc f]"
    then have "i \<le> k \<and> k \<le> f" by auto
    with assms(3) show "\<not> em_branco (aba_mes s col k)" by simp
  qed
  have v: "valores_api (map (\<lambda>k. [aba_mes s col k]) [i..<Suc f]) =
           map (\<lambda>k. [aba_mes s col k]) [i..<Suc f]"
    using c by (rule valores_api_cheia)
  have n: "map (\<lambda>k. [aba_mes s col k]) [i..<Suc f] \<noteq> []" using assms(2) by simp
  have p: "primeira_vazia (map (\<lambda>k. [aba_mes s col k]) [i..<Suc f]) i = None"
    using c by (rule primeira_vazia_cheia)
  show ?thesis
    by (simp only: encontrar_proxima_linha_vazia_ok [OF assms(1)] v n p if_False fst_conv)
qed

lemma processar_insercoes_secoes_cheias:
  assumes "rede s = []"
    and "\<forall>k. 10 \<le> k \<and> k \<le> 19 \<longrightarrow> \<not> em_branco (aba_mes s ''B'' k)"
    and "\<forall>k. 17 \<le> k \<and> k \<le> 26 \<longrightarrow> \<not> em_branco (aba_mes s ''H'' k)"
    and "\<forall>k. 25 \<le> k \<and> k \<le> 51 \<longrightarrow> \<not> em_branco (aba_mes s ''B'' k)"
  shows "processar_insercoes df s = (Inr (), s)"
proof -
  have e1: "fst (encontrar_proxima_linha_vazia ''B'' 10 19 s) = Inr None"
    using assms(1) _ assms(2) by (rule encontrar_secao_cheia) simp
  have e2: "fst (encontrar_proxima_linha_vazia ''H'' 17 26 s) = Inr None"
    using assms(1) _ assms(3) by (rule encontrar_secao_cheia) simp
  have e3: "fst (encontrar_proxima_linha_vazia ''B'' 25 51 s) = Inr None"
    using assms(1) _ assms(4) by (rule encontrar_secao_cheia) simp
  note i1 = inserir_generico_secao_cheia [OF assms(1) e1]
  note i2 = inserir_generico_secao_cheia [OF assms(1) e2]
  note i3 = inserir_generico_secao_cheia [OF assms(1) e3]
  show ?thesis
    by (simp add: processar_insercoes_def Let_def seq_def inserir_entradas_def
        inserir_gastos_fixos_def inserir_gastos_variaveis_def i1 i2 i3)
qed

lemma importar_secoes_cheias:
  fixes md5 :: "string \<Rightarrow> string" and sv :: "valor \<Rightarrow> string" and df :: "transacao list"
  assumes "rede s = []"
    and "\<forall>k. 10 \<le> k \<and> k \<le> 19 \<longrightarrow> \<not> em_branco (aba_mes s ''B'' k)"
    and "\<forall>k. 17 \<le> k \<and> k \<le> 26 \<longrightarrow> \<not> em_branco (aba_mes s ''H'' k)"
    and "\<forall>k. 25 \<le> k \<and> k \<le> 51 \<longrightarrow> \<not> em_branco (aba_mes s ''B'' k)"
  shows "aba_mes (snd (importar_transacoes md5 sv agora df s)) = aba_mes s"
proof (cases "get_transacoes_existentes s")
  case (Pair r0 s1)
  with get_transacoes_existentes_ok [OF assms(1)] obtain hs where
    g: "get_transacoes_existentes s = (Inr hs, s1)" and
    s1: "s1 = s\<lparr>aba_historico := Some (case aba_historico s of None \<Rightarrow> [CABECALHO] | Some h \<Rightarrow> h)\<rparr>"
    by simp
  have m1: "aba_mes s1 = aba_mes s" and r1: "rede s1 = []" using s1 assms(1) by simp_all
  have p: "processar_insercoes dfn s1 = (Inr (), s1)" for dfn :: "transacao_hash list"
    using r1 assms(2-4) unfolding m1 [symmetric] by (rule processar_insercoes_secoes_cheias)
  have "aba_mes (snd (atualizar_historico agora dfn s1)) = aba_mes s1"
    for dfn :: "transacao_hash list"
    using atualizar_historico_ok [OF r1, of _ agora dfn] s1 by simp
  with g p m1 show ?thesis
    by (simp add: importar_transacoes_def seq_def Let_def)
qed

text \<open>
  C2. When no remote call fails, an import returns normally and the worksheet \<open>Historico\<close>
  then reads as it did before (as its header alone when it did not exist), followed by one
  row Hash, Data, Descricao, Valor, Data_Importacao for every record of the batch whose hash
  was not in the column \<open>Hash\<close>, in the order of the batch, whatever the state of the
  sections. In particular, when the three sections are full no cell of the month worksheet
  changes, and the records are in the worksheet \<open>Historico\<close> all the same.
\<close>

theorem c2_historico_de_todas_as_novas:
  fixes md5 :: "string \<Rightarrow> string" and sv :: "valor \<Rightarrow> string" and df :: "transacao list"
  assumes "rede s = []" and "agora \<noteq> []"
  shows "fst (importar_transacoes md5 sv agora df s) = Inr () \<and>
    (\<exists>h'. aba_historico (snd (importar_transacoes md5 sv agora df s)) = Some h' \<and>
       valores_api h' =
         valores_api (case aba_historico s of None \<Rightarrow> [CABECALHO] | Some h \<Rightarrow> h) @
         map (\<lambda>row. [Texto (gerar_hash_transacao md5 sv row), Texto (Data row),
                     Texto (Descricao row), Numero (numero (Valor row)), Texto agora])
           (filter (\<lambda>row. Texto (gerar_hash_transacao md5 sv row) \<notin>
               (case aba_historico s of
                  None \<Rightarrow> {}
                | Some h \<Rightarrow> if Texto ''Hash'' \<notin> set (colunas_df (valores_api h)) then {}
                            else set (coluna_dropna (Texto ''Hash'') (valores_api h)))) df)) \<and>
    ((\<forall>k. 10 \<le> k \<and> k \<le> 19 \<longrightarrow> \<not> em_branco (aba_mes s ''B'' k)) \<and>
     (\<forall>k. 17 \<le> k \<and> k \<le> 26 \<longrightarrow> \<not> em_branco (aba_mes s ''H'' k)) \<and>
     (\<forall>k. 25 \<le> k \<and> k \<le> 51 \<longrightarrow> \<not> em_branco (aba_mes s ''B'' k)) \<longrightarrow>
       aba_mes (snd (importar_transacoes md5 sv agora df s)) = aba_mes s)"
proof (intro conjI impI)
  let ?hs = "case aba_historico s of
                  None \<Rightarrow> {}
                | Some h \<Rightarrow> if Texto ''Hash'' \<notin> set (colunas_df (valores_api h)) then {}
                            else set (coluna_dropna (Texto ''Hash'') (valores_api h))"
  note i = importar_sem_falha [OF assms, of md5 sv df]
  show "fst (importar_transacoes md5 sv agora df s) = Inr ()" by (rule conjunct1 [OF i])
  have e: "map (linha_historico agora)
          (filter (\<lambda>row. Texto (Hash row) \<notin> ?hs) (map (com_hash md5 sv) df)) =
        map (\<lambda>row. [Texto (gerar_hash_transacao md5 sv row), Texto (Data row),
                     Texto (Descricao row), Numero (numero (Valor row)), Texto agora])
           (filter (\<lambda>row. Texto (gerar_hash_transacao md5 sv row) \<notin> ?hs) df)"
    by (simp add: filter_map comp_def linha_historico_def com_hash_def)
  show "\<exists>h'. aba_historico (snd (importar_transacoes md5 sv agora df s)) = Some h' \<and>
       valores_api h' =
         valores_api (case aba_historico s of None \<Rightarrow> [CABECALHO] | Some h \<Rightarrow> h) @
         map (\<lambda>row. [Texto (gerar_hash_transacao md5 sv row), Texto (Data row),
                     Texto (Descricao row), Numero (numero (Valor row)), Texto agora])
           (filter (\<lambda>row. Texto (gerar_hash_transacao md5 sv row) \<notin> ?hs) df)"
    using conjunct2 [OF conjunct2 [OF i]] unfolding e .
next
  assume a: "(\<forall>k. 10 \<le> k \<and> k \<le> 19 \<longrightarrow> \<not> em_branco (aba_mes s ''B'' k)) \<and>
     (\<forall>k. 17 \<le> k \<and> k \<le> 26 \<longrightarrow> \<not> em_branco (aba_mes s ''H'' k)) \<and>
     (\<forall>k. 25 \<le> k \<and> k \<le> 51 \<longrightarrow> \<not> em_branco (aba_mes s ''B'' k))"
  show "aba_mes (snd (importar_transacoes md5 sv agora df s)) = aba_mes s"
    using assms(1) conjunct1 [OF a] conjunct1 [OF conjunct2 [OF a]] conjunct2 [OF conjunct2 [OF a]]
    by (rule importar_secoes_cheias)
qed

theorem c2_historico_de_todas_as_novas_witness:
  "rede planilha_cheia = [] \<and> ''04/11/2026 10:00:00'' \<noteq> [] \<and>
   fst (importar_transacoes (\<lambda>t. t) (\<lambda>v. ''-23.5'') ''04/11/2026 10:00:00'' [uber_trip]
          planilha_cheia) = Inr () \<and>
   (\<exists>h'. aba_historico (snd (importar_transacoes (\<lambda>t. t) (\<lambda>v. ''-23.5'')
            ''04/11/2026 10:00:00'' [uber_trip] planilha_cheia)) = Some h' \<and>
      valores_api h' =
        [CABECALHO,
         [Texto ''05/01/2024|UBER *TRIP|-23.5'', Texto ''05/01/2024'', Texto ''UBER *TRIP'',
          Numero (- 23.5), Texto ''04/11/2026 10:00:00'']]) \<and>
   aba_mes (snd (importar_transacoes (\<lambda>t. t) (\<lambda>v. ''-23.5'') ''04/11/2026 10:00:00''
      [uber_trip] planilha_cheia)) = (\<lambda>coluna linha. Texto ''x'')"
proof -
  let ?r = "importar_transacoes (\<lambda>t. t) (\<lambda>v. ''-23.5'') ''04/11/2026 10:00:00'' [uber_trip]
          planilha_cheia"
  have r: "rede planilha_cheia = []" by (simp add: planilha_cheia_def)
  have g: "''04/11/2026 10:00:00'' \<noteq> []" by simp
  note t = c2_historico_de_todas_as_novas [OF r g, of "\<lambda>t. t" "\<lambda>v. ''-23.5''" "[uber_trip]"]
  have a: "fst ?r = Inr ()" by (rule conjunct1 [OF t])
  have h: "aba_historico planilha_cheia = None" by (simp add: planilha_cheia_def)
  have b: "\<exists>h'. aba_historico (snd ?r) = Some h' \<and>
      valores_api h' =
        [CABECALHO,
         [Texto ''05/01/2024|UBER *TRIP|-23.5'', Texto ''05/01/2024'', Texto ''UBER *TRIP'',
          Numero (- 23.5), Texto ''04/11/2026 10:00:00'']]"
    using conjunct1 [OF conjunct2 [OF t]]
    by (simp add: h valores_api_cabecalho gerar_hash_transacao_def texto_hash_def uber_trip_def
        numero_def)
  have f: "(\<forall>k. 10 \<le> k \<and> k \<le> 19 \<longrightarrow> \<not> em_branco (aba_mes planilha_cheia ''B'' k)) \<and>
     (\<forall>k. 17 \<le> k \<and> k \<le> 26 \<longrightarrow> \<not> em_branco (aba_mes planilha_cheia ''H'' k)) \<and>
     (\<forall>k. 25 \<le> k \<and> k \<le> 51 \<longrightarrow> \<not> em_branco (aba_mes planilha_cheia ''B'' k))"
    by (simp add: planilha_cheia_def em_branco_def)
  have "aba_mes (snd ?r) = aba_mes planilha_cheia"
    by (rule mp [OF conjunct2 [OF conjunct2 [OF t]] f])
  then have c: "aba_mes (snd ?r) = (\<lambda>coluna linha. Texto ''x'')"
    by (simp add: planilha_cheia_def)
  from r g a b c show ?thesis by (intro conjI)
qed

section \<open>Importing the same batch twice\<close>

lemma coluna_dropna_acrescenta:
  assumes "valores = (nome # cab) # linhas"
  shows "coluna_dropna nome (valores @ novas_linhas) =
           coluna_dropna nome valores @
           filter (\<lambda>c. \<not> em_branco c) (map (\<lambda>l. if 0 < length l then l ! 0 else Nulo) novas_linhas)"
  using assms by (simp add: coluna_dropna_def colunas_df_def Let_def)

lemma coluna_linhas_historico:
  assumes "\<forall>row\<in>set dfn. Hash row \<noteq> []"
  shows "filter (\<lambda>c. \<not> em_branco c)
           (map (\<lambda>l. if 0 < length l then l ! 0 else Nulo) (map (linha_historico agora) dfn)) =
         map (\<lambda>row. Texto (Hash row)) dfn"
  using assms by (induction dfn) (simp_all add: linha_historico_def em_branco_def)

lemma coluna_cabecalho: "coluna_dropna (Texto ''Hash'') (valores_api [CABECALHO]) = []"
  by (simp add: valores_api_cabecalho [unfolded CABECALHO_def] coluna_dropna_def colunas_df_def
      CABECALHO_def)

lemma historico_com_cabecalho_casos:
  assumes "historico_com_cabecalho s"
  defines "h0 \<equiv> (case aba_historico s of None \<Rightarrow> [CABECALHO] | Some h \<Rightarrow> h)"
  shows "\<exists>cab linhas. valores_api h0 = (Texto ''Hash'' # cab) # linhas"
proof (cases "aba_historico s")
  case None
  then show ?thesis
    by (simp add: h0_def valores_api_cabecalho [unfolded CABECALHO_def] CABECALHO_def)
next
  case (Some h)
  with assms(1) show ?thesis
    by (auto simp: h0_def historico_com_cabecalho_def split: list.splits)
qed

lemma hashes_lidos:
  assumes "historico_com_cabecalho s"
  shows "(case aba_historico s of
             None \<Rightarrow> {}
           | Some h \<Rightarrow> if Texto ''Hash'' \<notin> set (colunas_df (valores_api h)) then {}
                       else set (coluna_dropna (Texto ''Hash'') (valores_api h))) =
         set (coluna_dropna (Texto ''Hash'')
           (valores_api (case aba_historico s of None \<Rightarrow> [CABECALHO] | Some h \<Rightarrow> h)))"
proof (cases "aba_historico s")
  case None
  then show ?thesis by (simp add: coluna_cabecalho)
next
  case (Some h)
  with assms show ?thesis
    by (auto simp: historico_com_cabecalho_def colunas_df_def split: list.splits)
qed

lemma importar_duas_vezes:
  fixes md5 :: "string \<Rightarrow> string" and sv :: "valor \<Rightarrow> string" and df :: "transacao list"
  assumes r: "rede s = []" and ag: "agora \<noteq> []" and hc: "historico_com_cabecalho s"
    and nv: "\<forall>row\<in>set df. gerar_hash_transacao md5 sv row \<noteq> []"
  defines "h0 \<equiv> (case aba_historico s of None \<Rightarrow> [CABECALHO] | Some h \<Rightarrow> h)"
  defines "s1 \<equiv> snd (importar_transacoes md5 sv agora df s)"
  defines "antigos \<equiv> coluna_dropna (Texto ''Hash'') (valores_api h0)"
  shows "fst (importar_transacoes md5 sv agora df s) = Inr () \<and>
         (\<exists>h1. aba_historico s1 = Some h1 \<and>
            coluna_dropna (Texto ''Hash'') (valores_api h1) =
              antigos @ map (\<lambda>row. Texto (gerar_hash_transacao md5 sv row))
                (filter (\<lambda>row. Texto (gerar_hash_transacao md5 sv row) \<notin> set antigos) df)) \<and>
         (\<exists>hs1. get_transacoes_existentes s1 = (Inr hs1, s1) \<and>
            novas hs1 (map (com_hash md5 sv) df) = []) \<and>
         importar_transacoes md5 sv agora2 df s1 = (Inr (), s1)"
proof -
  let ?hs = "case aba_historico s of
             None \<Rightarrow> {}
           | Some h \<Rightarrow> if Texto ''Hash'' \<notin> set (colunas_df (valores_api h)) then {}
                       else set (coluna_dropna (Texto ''Hash'') (valores_api h))"
  let ?dfn = "filter (\<lambda>row. Texto (Hash row) \<notin> ?hs) (map (com_hash md5 sv) df)"
  have hs: "?hs = set antigos" unfolding antigos_def h0_def using hc by (rule hashes_lidos)
  note i = importar_sem_falha [OF r ag, of md5 sv df]
  have a: "fst (importar_transacoes md5 sv agora df s) = Inr ()" by (rule conjunct1 [OF i])
  have r1: "rede s1 = []" unfolding s1_def by (rule conjunct1 [OF conjunct2 [OF i]])
  from conjunct2 [OF conjunct2 [OF i]] obtain h1 where
    h1: "aba_historico s1 = Some h1 \<and>
         valores_api h1 = valores_api h0 @ map (linha_historico agora) ?dfn"
    unfolding s1_def h0_def ..
  from historico_com_cabecalho_casos [OF hc] obtain cab linhas where
    v0: "valores_api h0 = (Texto ''Hash'' # cab) # linhas"
    unfolding h0_def by auto
  have nn: "\<forall>row\<in>set ?dfn. Hash row \<noteq> []" using nv by (auto simp: com_hash_def)
  have col: "coluna_dropna (Texto ''Hash'') (valores_api h1) =
          antigos @ map (\<lambda>row. Texto (Hash row)) ?dfn"
    using coluna_dropna_acrescenta [OF v0, of "map (linha_historico agora) ?dfn"]
      coluna_linhas_historico [OF nn, of agora] h1
    by (simp add: antigos_def)
  have e: "map (\<lambda>row. Texto (Hash row)) ?dfn =
        map (\<lambda>row. Texto (gerar_hash_transacao md5 sv row))
                (filter (\<lambda>row. Texto (gerar_hash_transacao md5 sv row) \<notin> set antigos) df)"
    unfolding hs by (simp add: filter_map comp_def com_hash_def)
  have b: "\<exists>h1. aba_historico s1 = Some h1 \<and>
            coluna_dropna (Texto ''Hash'') (valores_api h1) =
              antigos @ map (\<lambda>row. Texto (gerar_hash_transacao md5 sv row))
                (filter (\<lambda>row. Texto (gerar_hash_transacao md5 sv row) \<notin> set antigos) df)"
    using h1 col e by simp
  have cabe: "Texto ''Hash'' \<in> set (colunas_df (valores_api h1))"
    using h1 v0 by (simp add: colunas_df_def)
  have s1s: "s1\<lparr>aba_historico := Some h1\<rparr> = s1" using h1 by simp
  have g1: "get_transacoes_existentes s1 =
      (Inr (set (coluna_dropna (Texto ''Hash'') (valores_api h1))), s1)"
    using get_transacoes_existentes_presente [OF r1 conjunct1 [OF h1]] cabe by simp
  have todos: "Texto (Hash row) \<in> set (coluna_dropna (Texto ''Hash'') (valores_api h1))"
    if "row \<in> set (map (com_hash md5 sv) df)" for row
  proof (cases "Texto (Hash row) \<in> set antigos")
    case True
    then show ?thesis by (simp add: col)
  next
    case False
    with that have "row \<in> set ?dfn" by (simp add: hs)
    then have "(\<lambda>row. Texto (Hash row)) row \<in> (\<lambda>row. Texto (Hash row)) ` set ?dfn"
      by (rule imageI)
    then have "Texto (Hash row) \<in> set (map (\<lambda>row. Texto (Hash row)) ?dfn)"
      by (simp only: set_map)
    then show ?thesis by (simp only: col set_append UnI2)
  qed
  have n1: "novas (set (coluna_dropna (Texto ''Hash'') (valores_api h1)))
              (map (com_hash md5 sv) df) = []"
    unfolding novas_def filter_empty_conv using todos by simp
  have c: "\<exists>hs1. get_transacoes_existentes s1 = (Inr hs1, s1) \<and>
            novas hs1 (map (com_hash md5 sv) df) = []"
    using g1 n1 by (intro exI [of _ "set (coluna_dropna (Texto ''Hash'') (valores_api h1))"]) simp
  have d: "importar_transacoes md5 sv agora2 df s1 = (Inr (), s1)"
    using g1 n1 by (simp add: importar_transacoes_def seq_def Let_def)
  from a b c d show ?thesis by (intro conjI)
qed


lemma distinct_coluna:
  assumes "distinct (map f df)" and "distinct antigos"
  shows "distinct (antigos @ map (\<lambda>row. Texto (f row)) (filter (\<lambda>row. Texto (f row) \<notin> set antigos) df))"
proof -
  have "distinct (map f (filter (\<lambda>row. Texto (f row) \<notin> set antigos) df))"
    using assms(1) by (rule distinct_map_filter)
  then have "distinct (map Texto (map f (filter (\<lambda>row. Texto (f row) \<notin> set antigos) df)))"
    by (simp add: distinct_map inj_on_def)
  then have "distinct (map (\<lambda>row. Texto (f row)) (filter (\<lambda>row. Texto (f row) \<notin> set antigos) df))"
    by (simp add: comp_def)
  with assms(2) show ?thesis by auto
qed

text \<open>
  C1, as the code has it. When no remote call fails, the worksheet \<open>Historico\<close> is missing
  or headed by \<open>Hash\<close>, and no record of the batch has an empty digest: the first import
  returns normally and leaves the column \<open>Hash\<close> as it was, followed by the hashes of the
  records of the batch that were not in it, in batch order, one for each such record; so the
  column has no hash twice when it had none twice before and no two records of the batch have
  the same hash. A second import of the same batch on the state the first one left reads a
  hash set that filters out every record, and returns with the state unchanged: no cell
  written, nothing appended.
\<close>

theorem c1_importar_duas_vezes:
  fixes md5 :: "string \<Rightarrow> string" and sv :: "valor \<Rightarrow> string" and df :: "transacao list"
  assumes "rede s = []" and "agora \<noteq> []" and "historico_com_cabecalho s"
    and "\<forall>row\<in>set df. gerar_hash_transacao md5 sv row \<noteq> []"
  shows "fst (importar_transacoes md5 sv agora df s) = Inr () \<and>
    (\<exists>h1. aba_historico (snd (importar_transacoes md5 sv agora df s)) = Some h1 \<and>
       coluna_dropna (Texto ''Hash'') (valores_api h1) =
         coluna_dropna (Texto ''Hash'')
           (valores_api (case aba_historico s of None \<Rightarrow> [CABECALHO] | Some h \<Rightarrow> h)) @
         map (\<lambda>row. Texto (gerar_hash_transacao md5 sv row))
           (filter (\<lambda>row. Texto (gerar_hash_transacao md5 sv row) \<notin>
              set (coluna_dropna (Texto ''Hash'')
                (valores_api (case aba_historico s of None \<Rightarrow> [CABECALHO] | Some h \<Rightarrow> h)))) df) \<and>
       (distinct (map (gerar_hash_transacao md5 sv) df) \<and>
        distinct (coluna_dropna (Texto ''Hash'')
           (valores_api (case aba_historico s of None \<Rightarrow> [CABECALHO] | Some h \<Rightarrow> h))) \<longrightarrow>
          distinct (coluna_dropna (Texto ''Hash'') (valores_api h1)))) \<and>
    (\<exists>hs1. get_transacoes_existentes (snd (importar_transacoes md5 sv agora df s)) =
              (Inr hs1, snd (importar_transacoes md5 sv agora df s)) \<and>
       novas hs1 (map (com_hash md5 sv) df) = []) \<and>
    importar_transacoes md5 sv agora2 df (snd (importar_transacoes md5 sv agora df s)) =
      (Inr (), snd (importar_transacoes md5 sv agora df s))"
proof -
  let ?A = "coluna_dropna (Texto ''Hash'')
           (valores_api (case aba_historico s of None \<Rightarrow> [CABECALHO] | Some h \<Rightarrow> h))"
  let ?s1 = "snd (importar_transacoes md5 sv agora df s)"
  note t = importar_duas_vezes [OF assms, of agora2]
  from conjunct1 [OF conjunct2 [OF t]] obtain h1 where
    h1: "aba_historico ?s1 = Some h1 \<and>
       coluna_dropna (Texto ''Hash'') (valores_api h1) =
         ?A @ map (\<lambda>row. Texto (gerar_hash_transacao md5 sv row))
           (filter (\<lambda>row. Texto (gerar_hash_transacao md5 sv row) \<notin> set ?A) df)" ..
  have d: "distinct (coluna_dropna (Texto ''Hash'') (valores_api h1))"
    if "distinct (map (gerar_hash_transacao md5 sv) df) \<and> distinct ?A"
    using distinct_coluna [OF conjunct1 [OF that] conjunct2 [OF that]] conjunct2 [OF h1]
    by simp
  have b: "\<exists>h1. aba_historico ?s1 = Some h1 \<and>
       coluna_dropna (Texto ''Hash'') (valores_api h1) =
         ?A @ map (\<lambda>row. Texto (gerar_hash_transacao md5 sv row))
           (filter (\<lambda>row. Texto (gerar_hash_transacao md5 sv row) \<notin> set ?A) df) \<and>
       (distinct (map (gerar_hash_transacao md5 sv) df) \<and> distinct ?A \<longrightarrow>
          distinct (coluna_dropna (Texto ''Hash'') (valores_api h1)))"
    using h1 d by (intro exI [of _ h1]) simp
  from conjunct1 [OF t] b conjunct1 [OF conjunct2 [OF conjunct2 [OF t]]]
    conjunct2 [OF conjunct2 [OF conjunct2 [OF t]]]
  show ?thesis by (intro conjI)
qed

theorem c1_importar_duas_vezes_witness:
  "rede planilha_vazia = [] \<and> historico_com_cabecalho planilha_vazia \<and>
   fst (importar_transacoes (\<lambda>t. t) (str_valor_py (\<lambda>r. ''-23.5'')) ''04/11/2026 10:00:00''
          [uber_trip, padaria] planilha_vazia) = Inr () \<and>
   (\<exists>h1. aba_historico (snd (importar_transacoes (\<lambda>t. t) (str_valor_py (\<lambda>r. ''-23.5''))
             ''04/11/2026 10:00:00'' [uber_trip, padaria] planilha_vazia)) = Some h1 \<and>
      coluna_dropna (Texto ''Hash'') (valores_api h1) =
        [Texto ''05/01/2024|UBER *TRIP|-23.5'', Texto ''06/01/2024|Padaria Central|-12.0''] \<and>
      distinct (coluna_dropna (Texto ''Hash'') (valores_api h1))) \<and>
   importar_transacoes (\<lambda>t. t) (str_valor_py (\<lambda>r. ''-23.5'')) ''05/11/2026 09:00:00''
     [uber_trip, padaria]
     (snd (importar_transacoes (\<lambda>t. t) (str_valor_py (\<lambda>r. ''-23.5'')) ''04/11/2026 10:00:00''
        [uber_trip, padaria] planilha_vazia)) =
     (Inr (), snd (importar_transacoes (\<lambda>t. t) (str_valor_py (\<lambda>r. ''-23.5''))
        ''04/11/2026 10:00:00'' [uber_trip, padaria] planilha_vazia))"
proof -
  let ?sv = "str_valor_py (\<lambda>r. ''-23.5'')"
  let ?s1 = "snd (importar_transacoes (\<lambda>t. t) ?sv ''04/11/2026 10:00:00''
        [uber_trip, padaria] planilha_vazia)"
  have r: "rede planilha_vazia = []" by (simp add: planilha_vazia_def)
  have n: "aba_historico planilha_vazia = None" by (simp add: planilha_vazia_def)
  have g: "''04/11/2026 10:00:00'' \<noteq> []" by simp
  have hc: "historico_com_cabecalho planilha_vazia" by (simp add: historico_com_cabecalho_def n)
  have u: "gerar_hash_transacao (\<lambda>t. t) ?sv uber_trip = ''05/01/2024|UBER *TRIP|-23.5''"
    by code_simp
  have p: "gerar_hash_transacao (\<lambda>t. t) ?sv padaria = ''06/01/2024|Padaria Central|-12.0''"
    by code_simp
  have nv: "\<forall>row\<in>set [uber_trip, padaria]. gerar_hash_transacao (\<lambda>t. t) ?sv row \<noteq> []"
    by (simp add: u p)
  note t = c1_importar_duas_vezes [OF r g hc nv, of "''05/11/2026 09:00:00''"]
  have a: "fst (importar_transacoes (\<lambda>t. t) ?sv ''04/11/2026 10:00:00''
          [uber_trip, padaria] planilha_vazia) = Inr ()"
    by (rule conjunct1 [OF t])
  have b: "\<exists>h1. aba_historico ?s1 = Some h1 \<and>
      coluna_dropna (Texto ''Hash'') (valores_api h1) =
        [Texto ''05/01/2024|UBER *TRIP|-23.5'', Texto ''06/01/2024|Padaria Central|-12.0''] \<and>
      distinct (coluna_dropna (Texto ''Hash'') (valores_api h1))"
    using conjunct1 [OF conjunct2 [OF t]] by (simp add: n coluna_cabecalho u p)
  have c: "importar_transacoes (\<lambda>t. t) ?sv ''05/11/2026 09:00:00'' [uber_trip, padaria] ?s1 =
     (Inr (), ?s1)"
    by (rule conjunct2 [OF conjunct2 [OF conjunct2 [OF t]]])
  from r hc a b c show ?thesis by (intro conjI)
qed

text \<open>
  C1 as the spec words it fails, in two ways (the text stands for its digest). A batch with
  the same record twice puts its hash in the column \<open>Hash\<close> twice. And when the worksheet
  \<open>Historico\<close> exists but is blank, the first import writes its row in row 1, where the
  header should be; the second import then reads no hash at all, filters out nothing, and
  appends the record a second time.
\<close>

theorem c1_counterexample:
  "map_option (\<lambda>h. coluna_dropna (Texto ''Hash'') (valores_api h))
     (aba_historico (snd (importar_transacoes (\<lambda>t. t) (\<lambda>v. ''-23.5'') ''04/11/2026 10:00:00''
        [uber_trip, uber_trip] planilha_vazia))) =
     Some [Texto ''05/01/2024|UBER *TRIP|-23.5'', Texto ''05/01/2024|UBER *TRIP|-23.5''] \<and>
   aba_historico (planilha_vazia\<lparr>aba_historico := Some []\<rparr>) = Some [] \<and>
   map_option length
     (aba_historico (snd (importar_transacoes (\<lambda>t. t) (\<lambda>v. ''-23.5'') ''04/11/2026 10:00:00''
        [uber_trip] (planilha_vazia\<lparr>aba_historico := Some []\<rparr>)))) = Some 1 \<and>
   fst (get_transacoes_existentes
     (snd (importar_transacoes (\<lambda>t. t) (\<lambda>v. ''-23.5'') ''04/11/2026 10:00:00''
        [uber_trip] (planilha_vazia\<lparr>aba_historico := Some []\<rparr>)))) = Inr {} \<and>
   map_option length
     (aba_historico (snd (importar_transacoes (\<lambda>t. t) (\<lambda>v. ''-23.5'') ''05/11/2026 09:00:00''
        [uber_trip]
        (snd (importar_transacoes (\<lambda>t. t) (\<lambda>v. ''-23.5'') ''04/11/2026 10:00:00''
           [uber_trip] (planilha_vazia\<lparr>aba_historico := Some []\<rparr>)))))) = Some 2"
proof -
  let ?r = "importar_transacoes (\<lambda>t. t) (\<lambda>v. ''-23.5'') ''04/11/2026 10:00:00''
        [uber_trip, uber_trip] planilha_vazia"
  let ?s0 = "planilha_vazia\<lparr>aba_historico := Some []\<rparr>"
  let ?r1 = "importar_transacoes (\<lambda>t. t) (\<lambda>v. ''-23.5'') ''04/11/2026 10:00:00'' [uber_trip] ?s0"
  let ?r2 = "importar_transacoes (\<lambda>t. t) (\<lambda>v. ''-23.5'') ''05/11/2026 09:00:00'' [uber_trip]
     (snd ?r1)"
  have a: "map_option (\<lambda>h. coluna_dropna (Texto ''Hash'') (valores_api h))
     (aba_historico (snd ?r)) =
     Some [Texto ''05/01/2024|UBER *TRIP|-23.5'', Texto ''05/01/2024|UBER *TRIP|-23.5'']"
    by code_simp
  have b: "aba_historico ?s0 = Some []" by simp
  have c: "map_option length (aba_historico (snd ?r1)) = Some 1" by code_simp
  have d: "fst (get_transacoes_existentes (snd ?r1)) = Inr {}" by code_simp
  have e: "map_option length (aba_historico (snd ?r2)) = Some 2" by code_simp
  from a b c d e show ?thesis by (intro conjI)
qed

end
